theory Spec2Isabelle
  imports Main "HOL-Library.Stream" "HOL-Library.AList"
begin

section \<open>create-unstack: a shallow embedding of \<^verbatim>\<open>src/index.ts\<close>\<close>

text \<open>
  The tool is one \<^verbatim>\<open>main\<close> function: it reads the command-line flags, asks two
  prompts unless \<^verbatim>\<open>--yes\<close> is given, corrects the feature set, creates the project
  directory, writes a fixed sequence of files, runs three git commands and prints a
  closing message.  \<^verbatim>\<open>src/index.ts\<close> holds two successive versions of this program
  (lines 1--946 and lines 947--2087).  The first is modelled in full under the source's
  names; of the second, the generators and the scaffolding block are modelled, under the
  same names with the suffix \<open>_v2\<close>.  A third, older version of the same file, with a
  \<^verbatim>\<open>million\<close> flag in place of \<^verbatim>\<open>reactScan\<close>, is not modelled.

  Text is a \<^typ>\<open>string\<close> of bytes: the UTF-8 encoding that \<^verbatim>\<open>writeFile\<close> puts on
  disk.  A multi-line template literal is written as \<open>join_lines\<close> of its source lines.
\<close>

subsection \<open>Text and JSON values\<close>

definition join_lines :: "string list \<Rightarrow> string" where
  "join_lines ls = concat (map (\<lambda>l. l @ ''\<newline>'') (butlast ls)) @ last ls"

text \<open>The object literals that the generators return and \<^verbatim>\<open>main\<close> serialises.\<close>

datatype json =
    JString string
  | JBool bool
  | JNumber int
  | JArray "json list"
  | JObject "(string \<times> json) list"

text \<open>
  What a \<^verbatim>\<open>writeFile\<close> call is given: a template string, or the text
  \<^verbatim>\<open>JSON.stringify(obj, null, 2)\<close> of an object literal, kept as the object.
\<close>

datatype content = Text string | Json json

subsection \<open>Command line, prompts and the feature set\<close>

text \<open>
  \<^verbatim>\<open>parseArgs\<close> with four boolean options (lines 11--18): an option that was not
  supplied is \<^verbatim>\<open>undefined\<close>, here \<open>None\<close>.
\<close>

record cli_values =
  values_db :: "bool option"
  values_auth :: "bool option"
  values_reactScan :: "bool option"
  values_yes :: "bool option"

record features =
  db :: bool
  auth :: bool
  reactScan :: bool

text \<open>JavaScript truthiness of an optional boolean, and \<^verbatim>\<open>x ?? false\<close>.\<close>

definition truthy :: "bool option \<Rightarrow> bool" where
  "truthy b = (b = Some True)"

definition orFalse :: "bool option \<Rightarrow> bool" where
  "orFalse b = (case b of None \<Rightarrow> False | Some x \<Rightarrow> x)"

subsection \<open>Project-name validation (lines 42--47)\<close>

text \<open>
  The regular expression \<^verbatim>\<open>/^[a-z0-9-_]+$/\<close>: a character class of two ranges and two
  single characters, one or more times, anchored at both ends of the input (no
  \<^verbatim>\<open>m\<close> flag, so \<^verbatim>\<open>$\<close> is the end of the string).  Ranges compare character codes.
\<close>

datatype class_atom = Range char char | Single char

fun atom_matches :: "class_atom \<Rightarrow> char \<Rightarrow> bool" where
  "atom_matches (Range lo hi) c =
     ((of_char lo :: nat) \<le> of_char c \<and> (of_char c :: nat) \<le> of_char hi)"
| "atom_matches (Single d) c = (c = d)"

definition class_matches :: "class_atom list \<Rightarrow> char \<Rightarrow> bool" where
  "class_matches cls c = list_ex (\<lambda>a. atom_matches a c) cls"

fun test_plus_anchored :: "class_atom list \<Rightarrow> string \<Rightarrow> bool" where
  "test_plus_anchored cls [] = False"
| "test_plus_anchored cls (c # cs) =
     (class_matches cls c \<and> (cs = [] \<or> test_plus_anchored cls cs))"

definition name_class :: "class_atom list" where
  "name_class =
     [Range (CHR ''a'') (CHR ''z''), Range (CHR ''0'') (CHR ''9''),
      Single (CHR ''-''), Single (CHR ''_'')]"

text \<open>\<open>None\<close> is \<^verbatim>\<open>undefined\<close>: the input is accepted.\<close>

definition validate :: "string \<Rightarrow> string option" where
  "validate v =
     (if v = [] then Some ''Please enter a project name''
      else if \<not> test_plus_anchored name_class v
        then Some ''Project name can only contain lowercase letters, numbers, hyphens, and underscores''
      else None)"

text \<open>
  The set of strings the specification names: non-empty, every character one of the
  lowercase letters, the digits, hyphen and underscore.
\<close>

definition allowed_chars :: "char set" where
  "allowed_chars = set ''abcdefghijklmnopqrstuvwxyz0123456789-_''"

definition spec_name_ok :: "string \<Rightarrow> bool" where
  "spec_name_ok s = (s \<noteq> [] \<and> set s \<subseteq> allowed_chars)"

subsection \<open>Feature selection and the cross-feature correction (lines 51--96)\<close>

text \<open>Lines 52--56: the feature set as the flags give it.\<close>

definition flagFeatures :: "cli_values \<Rightarrow> features" where
  "flagFeatures v =
     \<lparr>db = orFalse (values_db v), auth = orFalse (values_auth v),
      reactScan = orFalse (values_reactScan v)\<rparr>"

text \<open>
  Lines 70--76: the feature set as the multi-select answer gives it; an
  \<^verbatim>\<open>undefined\<close> answer counts as the empty selection.
\<close>

definition promptFeatures :: "string list option \<Rightarrow> features" where
  "promptFeatures selectedFeatures =
     (let featuresArray = (case selectedFeatures of None \<Rightarrow> [] | Some xs \<Rightarrow> xs)
      in \<lparr>db = ''db'' \<in> set featuresArray, auth = ''auth'' \<in> set featuresArray,
          reactScan = ''reactScan'' \<in> set featuresArray\<rparr>)"

text \<open>Lines 52--86: without \<^verbatim>\<open>--yes\<close> the prompt's answer replaces the flags' value.\<close>

definition selectFeatures :: "cli_values \<Rightarrow> string list option \<Rightarrow> features" where
  "selectFeatures v selectedFeatures =
     (if \<not> truthy (values_yes v) then promptFeatures selectedFeatures else flagFeatures v)"

text \<open>Lines 88--96: authentication without a database switches the database on.\<close>

definition enableDbForAuth :: "features \<Rightarrow> features" where
  "enableDbForAuth f = (if auth f \<and> \<not> db f then f\<lparr>db := True\<rparr> else f)"

definition resolveFeatures :: "cli_values \<Rightarrow> string list option \<Rightarrow> features" where
  "resolveFeatures v selectedFeatures = enableDbForAuth (selectFeatures v selectedFeatures)"

subsection \<open>The generators (lines 292--944)\<close>

text \<open>
  An assignment \<^verbatim>\<open>obj[key] = value\<close> on an object with string keys replaces the value
  of a key already present and appends a new key otherwise: \<^const>\<open>AList.update\<close> on the
  list of its properties in insertion order.
\<close>

definition baseDependencies :: "(string \<times> string) list" where
  "baseDependencies =
     [(''next'', ''^15.4.0''),
      (''react'', ''18.3.1''),
      (''tailwindcss-animate'', ''^1.0.7''),
      (''react-dom'', ''18.3.1''),
      (''@heroui/system'', ''2.4.19''),
      (''@heroui/theme'', ''2.4.19''),
      (''@heroui/toast'', ''^2.0.13''),
      (''@heroui/button'', ''2.2.23''),
      (''next-themes'', ''^0.4.6''),
      (''class-variance-authority'', ''^0.7.1''),
      (''clsx'', ''^2.1.1''),
      (''lucide-react'', ''^0.292.0''),
      (''tailwind-merge'', ''^2.0.0''),
      (''ultracite'', ''^5.0.46'')]"

definition dependencies :: "features \<Rightarrow> (string \<times> string) list" where
  "dependencies f =
     (let d0 = baseDependencies;
          d1 = (if db f then AList.update ''mongodb'' ''^6.15.0'' d0 else d0);
          d2 = (if auth f then AList.update ''better-auth'' ''^1.2.12'' d1 else d1);
          d3 = (if reactScan f then AList.update ''react-scan'' ''^0.4.3'' d2 else d2)
      in d3)"

definition devDependencies :: "(string \<times> string) list" where
  "devDependencies =
     [(''@types/react'', ''^18.3.1''),
      (''@types/react-dom'', ''^18.2.15''),
      (''@types/node'', ''^20.9.0''),
      (''tailwindcss'', ''4.1.11''),
      (''typescript'', ''^5.2.2''),
      (''@tailwindcss/postcss'', ''^4.1.11''),
      (''@biomejs/biome'', ''^2.0.6'')]"

definition record_json :: "(string \<times> string) list \<Rightarrow> json" where
  "record_json kvs = JObject (map (\<lambda>(k, v). (k, JString v)) kvs)"

definition generatePackageJson :: "string \<Rightarrow> features \<Rightarrow> json" where
  "generatePackageJson projectName f = JObject
     [(''name'', JString projectName),
      (''version'', JString ''0.1.0''),
      (''type'', JString ''module''),
      (''private'', JBool True),
      (''scripts'', JObject
         [(''dev'', JString ''next dev --turbopack''),
          (''build'', JString ''next build --turbopack''),
          (''start'', JString ''next start''),
          (''lint'', JString ''biome lint .''),
          (''format'', JString ''biome format --write .'')]),
      (''dependencies'', record_json (dependencies f)),
      (''devDependencies'', record_json devDependencies)]"

definition generateTsConfig :: json where
  "generateTsConfig = JObject
     [(''compilerOptions'', JObject
         [(''target'', JString ''es2020''),
          (''lib'', JArray [JString ''dom'', JString ''dom.iterable'', JString ''es2020'']),
          (''allowJs'', JBool True),
          (''skipLibCheck'', JBool True),
          (''strict'', JBool True),
          (''forceConsistentCasingInFileNames'', JBool True),
          (''noEmit'', JBool True),
          (''esModuleInterop'', JBool True),
          (''module'', JString ''es2020''),
          (''moduleResolution'', JString ''node''),
          (''resolveJsonModule'', JBool True),
          (''isolatedModules'', JBool True),
          (''jsx'', JString ''preserve''),
          (''incremental'', JBool True),
          (''plugins'', JArray [JObject [(''name'', JString ''next'')]]),
          (''paths'', JObject [(''@/*'', JArray [JString ''./*''])])]),
      (''include'', JArray
         [JString ''next-env.d.ts'', JString ''**/*.ts'', JString ''**/*.tsx'',
          JString ''.next/types/**/*.ts'']),
      (''exclude'', JArray [JString ''node_modules''])]"

text \<open>
  Lines 392--397.  The token is the value that the call of \<^verbatim>\<open>randomUUID()\<close> inside the
  template returned.
\<close>

definition generateEnvFile :: "string \<Rightarrow> string \<Rightarrow> string" where
  \<open>generateEnvFile projectName uuid = join_lines
    [''MONGODB_URI="mongodb://localhost:27017/'' @ projectName @ ''"'',
     ''BETTER_AUTH_SECRET="'' @ uuid @ ''"'',
     ''BETTER_AUTH_URL="http://localhost:3000"'',
     '''']\<close>

definition featuresSection :: "features \<Rightarrow> string" where
  \<open>featuresSection f =
     join_lines
       ['''',
        ''## Features'',
        '''',
        ''- '' @ [CHR 0xF0, CHR 0x9F, CHR 0x8E, CHR 0xA8] @ '' **TailwindCSS v4** - Utility-first CSS framework'',
        ''- '' @ [CHR 0xF0, CHR 0x9F, CHR 0xA7, CHR 0xA9] @ '' **ShadCN UI** - Accessible and customizable component library'',
        ''- '' @ [CHR 0xF0, CHR 0x9F, CHR 0x94, CHR 0x8D] @ '' **Biome** - Code linting and formatting'',
        ''- '' @ [CHR 0xF0, CHR 0x9F, CHR 0x94, CHR 0x84] @ '' **Git** - Version control with initial commit'',
        '''']
     @ (if db f
        then ''- '' @ [CHR 0xF0, CHR 0x9F, CHR 0x97, CHR 0x84] @ [CHR 0xEF, CHR 0xB8, CHR 0x8F] @ '' **MongoDB** - Database with MongoDB\<newline>''
        else '''')
     @ (if auth f
        then ''- '' @ [CHR 0xF0, CHR 0x9F, CHR 0x94, CHR 0x90] @ '' **Better-Auth** - Best Authentication system\<newline>''
        else '''')
     @ (if reactScan f
        then ''- '' @ [CHR 0xE2, CHR 0x9A, CHR 0xA1] @ '' **React Scan** - Performance analysis for React\<newline>''
        else '''')\<close>

definition generateReadme :: "string \<Rightarrow> features \<Rightarrow> string" where
  \<open>generateReadme projectName f = join_lines
    [''# '' @ projectName,
     '''',
     ''This project was bootstrapped with [create-untraceable-stack](https://github.com/TheUntraceable/create-untraceable-stack).'',
     '''',
     featuresSection f,
     '''',
     ''## Getting Started'',
     '''',
     ''First, install the dependencies:'',
     '''',
     ''```bash'',
     ''bun install'',
     ''# or'',
     ''npm install'',
     ''# or'',
     ''yarn install'',
     ''```'',
     '''',
     ''Then, run the development server:'',
     '''',
     ''```bash'',
     ''bun dev'',
     ''# or'',
     ''npm run dev'',
     ''# or'',
     ''yarn dev'',
     ''```'',
     '''',
     ''Open [http://localhost:3000](http://localhost:3000) with your browser to see the result.'',
     '''',
     ''## Learn More'',
     '''',
     ''To learn more about the technologies used in this project:'',
     '''',
     ''- [Next.js Documentation](https://nextjs.org/docs)'',
     ''- [TailwindCSS Documentation](https://tailwindcss.com/docs)'',
     ''- [ShadCN UI Documentation](https://ui.shadcn.com)'',
     (if db f then ''- [MongoDB Documentation](https://mongodb.com/docs)'' @ [CHR 0x5C] @ ''n'' else ''''),
     (if auth f then ''- [Better-Auth Documentation](https://better-auth.dev)'' @ [CHR 0x5C] @ ''n'' else ''''),
     (if reactScan f then ''- [React Scan Documentation](https://github.com/aidenybai/react-scan)'' @ [CHR 0x5C] @ ''n'' else '''')
       @ '' // Updated link and text'',
     '''']\<close>

definition reactScanComponent :: "features \<Rightarrow> string" where
  \<open>reactScanComponent f =
     (if reactScan f
      then join_lines
        [''<Head>'',
         ''                <script src="https://cdn.jsdelivr.net/npm/react-scan/dist/auto.global.js" />'',
         ''            </Head>'']
      else '''')\<close>

definition generateLayout :: "features \<Rightarrow> string" where
  \<open>generateLayout f = join_lines
    [''import "@/styles/globals.css";'',
     ''import clsx from "clsx";'',
     ''import { Metadata, Viewport } from "next";'',
     '''',
     ''import { fontSans } from "@/config/fonts";'',
     ''import { siteConfig } from "@/config/site";'',
     '''',
     ''import { Providers } from "./providers";'',
     ''import Head from "next/head";'',
     '''',
     ''export const metadata: Metadata = {'',
     ''    description: siteConfig.description,'',
     ''    icons: {'',
     ''        icon: "/favicon.ico",'',
     ''    },'',
     ''    title: {'',
     ''        default: siteConfig.name,'',
     ''        template: `%s - ${siteConfig.name}`,'',
     ''    },'',
     ''};'',
     '''',
     ''export const viewport: Viewport = {'',
     ''    themeColor: ['',
     ''        { color: "white", media: "(prefers-color-scheme: light)" },'',
     ''        { color: "black", media: "(prefers-color-scheme: dark)" },'',
     ''    ],'',
     ''};'',
     '''',
     ''export default function RootLayout({'',
     ''    children,'',
     ''}: {'',
     ''    children: React.ReactNode;'',
     ''}) {'',
     ''    return ('',
     ''        <html suppressHydrationWarning lang="en">'',
     ''            '' @ reactScanComponent f,
     ''            <body'',
     ''                className={clsx('',
     ''                    "min-h-screen bg-background font-sans antialiased",'',
     ''                    fontSans.variable,'',
     ''                )}'',
     ''            >'',
     ''                <Providers'',
     ''                    themeProps={{ attribute: "class", defaultTheme: "dark" }}'',
     ''                >'',
     ''                    <div className="flex flex-col">'',
     ''                        <main className="grow">{children}</main>'',
     ''                    </div>'',
     ''                </Providers>'',
     ''            </body>'',
     ''        </html>'',
     ''    );'',
     ''}'']\<close>

definition generateNextConfig :: string where
  \<open>generateNextConfig = join_lines
    [''/** @type {import(\'next\').NextConfig} */'',
     ''const nextConfig = {};'',
     '''',
     ''export default nextConfig;'',
     '''']\<close>

definition generateGitignore :: string where
  \<open>generateGitignore = join_lines
    [''# dependencies'',
     ''/node_modules'',
     ''/.pnp'',
     ''.pnp.js'',
     '''',
     ''# testing'',
     ''/coverage'',
     '''',
     ''# next.js'',
     ''/.next/'',
     ''/out/'',
     '''',
     ''# production'',
     ''/build'',
     '''',
     ''# misc'',
     ''.DS_Store'',
     ''*.pem'',
     '''',
     ''# debug'',
     ''npm-debug.log*'',
     ''yarn-debug.log*'',
     ''yarn-error.log*'',
     '''',
     ''# local env files'',
     ''.env*.local'',
     ''.env'',
     '''',
     ''# vercel'',
     ''.vercel'',
     '''',
     ''# typescript'',
     ''*.tsbuildinfo'',
     ''next-env.d.ts'',
     '''']\<close>

definition generateFonts :: string where
  \<open>generateFonts = join_lines
    [''import { Fira_Code as FontMono, Inter as FontSans } from "next/font/google";'',
     '''',
     ''export const fontSans = FontSans({'',
     ''    subsets: ["latin"],'',
     ''    variable: "--font-sans",'',
     ''});'',
     '''',
     ''export const fontMono = FontMono({'',
     ''    subsets: ["latin"],'',
     ''    variable: "--font-mono",'',
     ''});'',
     '''']\<close>

definition generateSite :: string where
  \<open>generateSite = join_lines
    [''export type SiteConfig = typeof siteConfig;'',
     '''',
     ''export const siteConfig = {'',
     ''    name: "Create Untraceable Stack",'',
     ''    description:'',
     ''        "Get up and running fast with Untraceable Stack.",'',
     ''};'']\<close>

definition generateHomePage :: string where
  \<open>generateHomePage = join_lines
    [''import { Button } from \'@heroui/button\';'',
     '''',
     ''export default function Home() {'',
     ''  return ('',
     ''    <div className="flex min-h-screen flex-col items-center justify-center p-4">'',
     ''      <div className="max-w-3xl text-center">'',
     ''        <h1 className="mb-4 text-4xl font-bold tracking-tight sm:text-5xl">'',
     ''          Welcome to <span className="text-primary">Untraceable Stack</span>'',
     ''        </h1>'',
     ''        <p className="mb-8 text-lg text-muted-foreground">'',
     ''          A modern Next.js application with TailwindCSS, ShadCN UI, and more.'',
     ''        </p>'',
     ''        <div className="flex flex-wrap justify-center gap-4">'',
     ''          <Button variant="shadow" color="primary">'',
     ''            <a href="https://heroui.org/docs" target="_blank" rel="noopener noreferrer">'',
     ''              Next.js Docs'',
     ''            </a>'',
     ''          </Button>'',
     ''          <Button variant="bordered">'',
     ''            <a href="https://ui.shadcn.com" target="_blank" rel="noopener noreferrer">'',
     ''              ShadCN UI'',
     ''            </a>'',
     ''          </Button>'',
     ''        </div>'',
     ''      </div>'',
     ''    </div>'',
     ''  );'',
     ''}'',
     '''']\<close>

definition generateGlobalCss :: string where
  \<open>generateGlobalCss = join_lines
    [''@import "tailwindcss";'',
     ''@config "../tailwind.config.js";'',
     '''',
     ''@layer base {'',
     ''  :root {'',
     ''    --background: 0 0% 100%;'',
     ''    --foreground: 222.2 84% 4.9%;'',
     '''',
     ''    --card: 0 0% 100%;'',
     ''    --card-foreground: 222.2 84% 4.9%;'',
     '' '',
     ''    --popover: 0 0% 100%;'',
     ''    --popover-foreground: 222.2 84% 4.9%;'',
     '' '',
     ''    --primary: 222.2 47.4% 11.2%;'',
     ''    --primary-foreground: 210 40% 98%;'',
     '' '',
     ''    --secondary: 210 40% 96.1%;'',
     ''    --secondary-foreground: 222.2 47.4% 11.2%;'',
     '' '',
     ''    --muted: 210 40% 96.1%;'',
     ''    --muted-foreground: 215.4 16.3% 46.9%;'',
     '' '',
     ''    --accent: 210 40% 96.1%;'',
     ''    --accent-foreground: 222.2 47.4% 11.2%;'',
     '' '',
     ''    --destructive: 0 84.2% 60.2%;'',
     ''    --destructive-foreground: 210 40% 98%;'',
     '''',
     ''    --border: 214.3 31.8% 91.4%;'',
     ''    --input: 214.3 31.8% 91.4%;'',
     ''    --ring: 222.2 84% 4.9%;'',
     '' '',
     ''    --radius: 0.5rem;'',
     ''  }'',
     '' '',
     ''  .dark {'',
     ''    --background: 222.2 84% 4.9%;'',
     ''    --foreground: 210 40% 98%;'',
     '' '',
     ''    --card: 222.2 84% 4.9%;'',
     ''    --card-foreground: 210 40% 98%;'',
     '' '',
     ''    --popover: 222.2 84% 4.9%;'',
     ''    --popover-foreground: 210 40% 98%;'',
     '' '',
     ''    --primary: 210 40% 98%;'',
     ''    --primary-foreground: 222.2 47.4% 11.2%;'',
     '' '',
     ''    --secondary: 217.2 32.6% 17.5%;'',
     ''    --secondary-foreground: 210 40% 98%;'',
     '' '',
     ''    --muted: 217.2 32.6% 17.5%;'',
     ''    --muted-foreground: 215 20.2% 65.1%;'',
     '' '',
     ''    --accent: 217.2 32.6% 17.5%;'',
     ''    --accent-foreground: 210 40% 98%;'',
     '' '',
     ''    --destructive: 0 62.8% 30.6%;'',
     ''    --destructive-foreground: 210 40% 98%;'',
     '' '',
     ''    --border: 217.2 32.6% 17.5%;'',
     ''    --input: 217.2 32.6% 17.5%;'',
     ''    --ring: 212.7 26.8% 83.9%;'',
     ''  }'',
     ''}'',
     '' '',
     ''@layer base {'',
     ''  * {'',
     ''    @apply border-border;'',
     ''  }'',
     ''  body {'',
     ''    @apply bg-background text-foreground;'',
     ''  }'',
     ''}'']\<close>

definition generateUtils :: string where
  \<open>generateUtils = join_lines
    [''import { type ClassValue, clsx } from "clsx";'',
     ''import { twMerge } from "tailwind-merge";'',
     '''',
     ''export function cn(...inputs: ClassValue[]) {'',
     ''  return twMerge(clsx(inputs));'',
     ''}'',
     '''']\<close>

definition generateTailwindConfig :: string where
  \<open>generateTailwindConfig = join_lines
    ['''',
     ''import { heroui } from "@heroui/theme";'',
     ''/** @type {import(\'tailwindcss\').Config} */'',
     ''export default {'',
     ''    content: ['',
     ''        "./components/**/*.{js,ts,jsx,tsx,mdx}",'',
     ''        "./app/**/*.{js,ts,jsx,tsx,mdx}",'',
     ''        "./node_modules/@heroui/theme/dist/**/*.{js,ts,jsx,tsx}",'',
     ''    ],'',
     ''    theme: {'',
     ''        extend: {'',
     ''            fontFamily: {'',
     ''                sans: ["var(--font-sans)"],'',
     ''                mono: ["var(--font-mono)"],'',
     ''            },'',
     ''            borderRadius: {'',
     ''                lg: "var(--radius)",'',
     ''                md: "calc(var(--radius) - 2px)",'',
     ''                sm: "calc(var(--radius) - 4px)",'',
     ''            },'',
     ''            colors: {'',
     ''                border: {'',
     ''                    DEFAULT: "hsl(var(--border))",'',
     ''                    hover: "hsl(var(--border-hover))",'',
     ''                },'',
     ''            },'',
     ''        },'',
     ''    },'',
     ''    darkMode: "class",'',
     ''    plugins: [heroui(), require("tailwindcss-animate")],'',
     ''};'',
     '''']\<close>

definition generatePostcssConfig :: string where
  \<open>generatePostcssConfig = join_lines
    [''export default {'',
     ''  plugins: {'',
     ''  "@tailwindcss/postcss": {}'',
     ''  },'',
     ''}'']\<close>

definition generateBiomeConfig :: string where
  \<open>generateBiomeConfig = join_lines
    [''{'',
     ''  "$schema": "https://biomejs.dev/schemas/2.0.6/schema.json",'',
     ''  "extends": ["ultracite"],'',
     ''  "linter": {'',
     ''    "enabled": true,'',
     ''    "includes": ['',
     ''      "**/*.ts",'',
     ''      "**/*.tsx",'',
     ''      "**/*.js",'',
     ''      "**/*.jsx",'',
     ''      "**/*.json",'',
     ''      "**/*.md"'',
     ''    ],'',
     ''    "rules": {'',
     ''      "style": {'',
     ''        "noNonNullAssertion": "off"'',
     ''      }'',
     ''    }'',
     ''  },'',
     ''  "files": {'',
     ''    "experimentalScannerIgnores": ["node_modules", ".git", ".next"]'',
     ''  },'',
     ''  "formatter": {'',
     ''    "enabled": true,'',
     ''    "indentWidth": 4,'',
     ''    "indentStyle": "space"'',
     ''  },'',
     ''  "vcs": {'',
     ''    "enabled": true,'',
     ''    "clientKind": "git",'',
     ''    "useIgnoreFile": true'',
     ''  }'',
     ''}'',
     '''']\<close>

definition generateMongoDbConfig :: string where
  \<open>generateMongoDbConfig = join_lines
    [''import { MongoClient } from "mongodb";'',
     '''',
     ''if (!process.env.MONGODB_URI) {'',
     ''    throw new Error(\'Invalid/Missing environment variable: "MONGODB_URI"\');'',
     ''}'',
     '''',
     ''const uri = process.env.MONGODB_URI;'',
     ''const options = {};'',
     '''',
     ''let client: MongoClient;'',
     '''',
     ''if (process.env.NODE_ENV === "development") {'',
     ''    let globalWithMongo = global as typeof globalThis & {'',
     ''        _mongoClient?: MongoClient;'',
     ''    };'',
     '''',
     ''    if (!globalWithMongo._mongoClient) {'',
     ''        globalWithMongo._mongoClient = new MongoClient(uri, options);'',
     ''    }'',
     ''    client = globalWithMongo._mongoClient;'',
     ''} else {'',
     ''    client = new MongoClient(uri, options);'',
     ''}'',
     '''',
     ''export { client };'']\<close>

definition generateAuthConfig :: string where
  \<open>generateAuthConfig = join_lines
    [''import { betterAuth } from "better-auth";'',
     ''import { mongodbAdapter } from "better-auth/adapters/mongodb";'',
     ''import { client } from "@/lib/db";'',
     '''',
     ''const db = client.db("auth");'',
     '''',
     ''export const auth = betterAuth({'',
     ''    database: mongodbAdapter(db)'',
     ''});'']\<close>

definition generateAuthClient :: string where
  \<open>generateAuthClient = join_lines
    [''import { createAuthClient } from "better-auth/react"'',
     ''export const authClient = createAuthClient({'',
     ''    baseURL: "http://localhost:3000"'',
     ''})'']\<close>

definition generateProviders :: string where
  \<open>generateProviders = join_lines
    [''"use client";'',
     '''',
     ''import type { ThemeProviderProps } from "next-themes";'',
     ''import { ThemeProvider as NextThemesProvider } from "next-themes";'',
     ''import { useRouter } from "next/navigation";'',
     ''import * as React from "react";'',
     '''',
     ''import { HeroUIProvider } from "@heroui/system";'',
     ''import { ToastProvider } from "@heroui/toast";'',
     '''',
     ''export interface ProvidersProps {'',
     ''    children: React.ReactNode;'',
     ''    themeProps?: ThemeProviderProps;'',
     ''}'',
     '''',
     ''declare module "@react-types/shared" {'',
     ''    interface RouterConfig {'',
     ''        routerOptions: NonNullable<'',
     ''            Parameters<ReturnType<typeof useRouter>["push"]>[1]'',
     ''        >;'',
     ''    }'',
     ''}'',
     '''',
     ''export const Providers = ({ children, themeProps }: ProvidersProps) => {'',
     ''    const router = useRouter();'',
     '''',
     ''    return ('',
     ''        <HeroUIProvider navigate={router.push}>'',
     ''            <ToastProvider />'',
     ''            <NextThemesProvider {...themeProps}>'',
     ''                {children}'',
     ''            </NextThemesProvider>'',
     ''        </HeroUIProvider>'',
     ''    );'',
     ''};'']\<close>

definition generateAuthRoute :: string where
  \<open>generateAuthRoute = join_lines
    [''import { auth } from "@/lib/auth";'',
     ''import { toNextJsHandler } from "better-auth/next-js";'',
     '' '',
     ''export const { POST, GET } = toNextJsHandler(auth);'']\<close>

definition generateVsCodeSettings :: json where
  "generateVsCodeSettings = JObject
     [(''editor.defaultFormatter'', JString ''biomejs.biome''),
      (''editor.formatOnSave'', JBool True),
      (''editor.codeActionsOnSave'', JObject
         [(''quickfix.biome'', JString ''explicit''),
          (''source.organizeImports.biome'', JString ''explicit'')]),
      (''[json]'', JObject [(''editor.defaultFormatter'', JString ''biomejs.biome'')]),
      (''[jsonc]'', JObject [(''editor.defaultFormatter'', JString ''biomejs.biome'')]),
      (''[javascript]'', JObject [(''editor.defaultFormatter'', JString ''biomejs.biome'')]),
      (''[typescript]'', JObject [(''editor.defaultFormatter'', JString ''biomejs.biome'')]),
      (''[javascriptreact]'', JObject [(''editor.defaultFormatter'', JString ''biomejs.biome'')]),
      (''[typescriptreact]'', JObject [(''editor.defaultFormatter'', JString ''biomejs.biome'')]),
      (''typescript.tsdk'', JString ''node_modules/typescript/lib''),
      (''typescript.enablePromptUseWorkspaceTsdk'', JBool True)]"

definition generateComponentsJson :: json where
  "generateComponentsJson = JObject
     [(''$schema'', JString ''https://ui.shadcn.com/schema.json''),
      (''style'', JString ''new-york''),
      (''rsc'', JBool True),
      (''tsx'', JBool True),
      (''tailwind'', JObject
         [(''config'', JString ''tailwind.config.js''),
          (''css'', JString ''styles/globals.css''),
          (''baseColor'', JString ''zinc''),
          (''cssVariables'', JBool False),
          (''prefix'', JString '''')]),
      (''aliases'', JObject
         [(''components'', JString ''@/components''),
          (''utils'', JString ''@/lib/utils''),
          (''ui'', JString ''@/components/ui''),
          (''lib'', JString ''@/lib''),
          (''hooks'', JString ''@/hooks'')]),
      (''iconLibrary'', JString ''lucide'')]"

subsection \<open>Files, directories and external commands\<close>

text \<open>
  A path is the list of segments handed to \<^verbatim>\<open>path.join\<close>.  The three kinds of call
  that \<^verbatim>\<open>main\<close> makes on the outside world:
  \<^verbatim>\<open>mkdir(p, { recursive: true })\<close>, \<^verbatim>\<open>writeFile(p, text)\<close> and
  \<^verbatim>\<open>execSync(command, { cwd })\<close>.
\<close>

type_synonym path = "string list"

datatype fsop = Mkdir path | WriteFile path content | ExecSync string path

record disk =
  files :: "path \<rightharpoonup> content"
  dirs :: "path set"

definition ancestors :: "path \<Rightarrow> path list" where
  "ancestors p = map (\<lambda>n. take n p) [1..<Suc (length p)]"

text \<open>
  The effect of a call that succeeds.  A recursive \<^verbatim>\<open>mkdir\<close> creates the directory and
  its missing parents; \<^verbatim>\<open>writeFile\<close> creates the file or replaces its content.  What git
  stores under \<^verbatim>\<open>.git\<close> is left out.
\<close>

fun apply_op :: "fsop \<Rightarrow> disk \<Rightarrow> disk" where
  "apply_op (Mkdir p) d = d\<lparr>dirs := dirs d \<union> set (ancestors p)\<rparr>"
| "apply_op (WriteFile p c) d = d\<lparr>files := (files d)(p \<mapsto> c)\<rparr>"
| "apply_op (ExecSync cmd dir) d = d"

text \<open>
  A sequence of awaited calls inside one \<^verbatim>\<open>try\<close> block.  The first argument tells
  which calls throw, and the string form of the error thrown; the first call that throws
  ends the block, the calls after it are not made, and the disk stays as the calls before
  it left it.
\<close>

fun run_ops :: "(fsop \<Rightarrow> string option) \<Rightarrow> fsop list \<Rightarrow> disk \<Rightarrow> string option \<times> disk" where
  "run_ops io [] d = (None, d)"
| "run_ops io (x # xs) d =
     (case io x of
        Some err \<Rightarrow> (Some err, d)
      | None \<Rightarrow> run_ops io xs (apply_op x d))"

text \<open>The disk after a sequence of calls that all succeed.\<close>

fun apply_ops :: "fsop list \<Rightarrow> disk \<Rightarrow> disk" where
  "apply_ops [] d = d"
| "apply_ops (x # xs) d = apply_ops xs (apply_op x d)"

text \<open>\<^verbatim>\<open>randomUUID()\<close> draws the next value of a stream of tokens.\<close>

definition randomUUID :: "string stream \<Rightarrow> string \<times> string stream" where
  "randomUUID s = (shd s, stl s)"

subsection \<open>The scaffolding block of \<^verbatim>\<open>main\<close> (lines 114--252)\<close>

definition scaffold :: "path \<Rightarrow> string \<Rightarrow> features \<Rightarrow> string stream \<Rightarrow> fsop list" where
  "scaffold projectDir projectName f uuids =
     (let (uuid1, uuids1) = randomUUID uuids;
          (uuid2, uuids2) = randomUUID uuids1
      in
       [WriteFile (projectDir @ [''package.json'']) (Json (generatePackageJson projectName f)),
        WriteFile (projectDir @ [''next.config.js'']) (Text generateNextConfig),
        WriteFile (projectDir @ [''tsconfig.json'']) (Json generateTsConfig),
        WriteFile (projectDir @ [''.env'']) (Text (generateEnvFile projectName uuid1)),
        WriteFile (projectDir @ [''.env.example'']) (Text (generateEnvFile projectName uuid2)),
        WriteFile (projectDir @ [''.gitignore'']) (Text generateGitignore),
        WriteFile (projectDir @ [''README.md'']) (Text (generateReadme projectName f)),
        Mkdir (projectDir @ [''config'']),
        WriteFile (projectDir @ [''config'', ''site.ts'']) (Text generateSite),
        WriteFile (projectDir @ [''config'', ''fonts.ts'']) (Text generateFonts),
        Mkdir (projectDir @ [''app'']),
        WriteFile (projectDir @ [''app'', ''layout.tsx'']) (Text (generateLayout f)),
        WriteFile (projectDir @ [''app'', ''page.tsx'']) (Text generateHomePage),
        Mkdir (projectDir @ [''styles'']),
        WriteFile (projectDir @ [''styles'', ''globals.css'']) (Text generateGlobalCss),
        Mkdir (projectDir @ [''components'']),
        Mkdir (projectDir @ [''components'', ''ui'']),
        Mkdir (projectDir @ [''lib'']),
        WriteFile (projectDir @ [''lib'', ''utils.ts'']) (Text generateUtils),
        WriteFile (projectDir @ [''tailwind.config.js'']) (Text generateTailwindConfig),
        WriteFile (projectDir @ [''components.json'']) (Json generateComponentsJson),
        WriteFile (projectDir @ [''app'', ''providers.tsx'']) (Text generateProviders),
        WriteFile (projectDir @ [''postcss.config.js'']) (Text generatePostcssConfig),
        WriteFile (projectDir @ [''biome.json'']) (Text generateBiomeConfig),
        Mkdir (projectDir @ [''.vscode'']),
        WriteFile (projectDir @ [''.vscode'', ''settings.json'']) (Json generateVsCodeSettings)]
       @ (if db f
          then [WriteFile (projectDir @ [''lib'', ''db.ts'']) (Text generateMongoDbConfig)]
          else [])
       @ (if auth f
          then [WriteFile (projectDir @ [''lib'', ''auth.ts'']) (Text generateAuthConfig),
                WriteFile (projectDir @ [''lib'', ''auth-client.ts'']) (Text generateAuthClient),
                Mkdir (projectDir @ [''app'', ''api'']),
                Mkdir (projectDir @ [''app'', ''api'', ''auth'']),
                Mkdir (projectDir @ [''app'', ''api'', ''auth'', ''[...all]'']),
                WriteFile (projectDir @ [''app'', ''api'', ''auth'', ''[...all]'', ''route.ts''])
                  (Text generateAuthRoute)]
          else []))"

text \<open>Lines 262--267: the three git commands, run in the project directory.\<close>

definition gitCommands :: "path \<Rightarrow> fsop list" where
  \<open>gitCommands projectDir =
     [ExecSync ''git init'' projectDir,
      ExecSync ''git add .'' projectDir,
      ExecSync ''git commit -m "Initial commit from create-untraceable-stack"'' projectDir]\<close>

subsection \<open>The artifact manifest\<close>

text \<open>
  The files that the scaffolding block writes, by path relative to the project directory,
  in the order of the calls.
\<close>

fun writes :: "fsop list \<Rightarrow> (path \<times> content) list" where
  "writes [] = []"
| "writes (WriteFile p c # xs) = (p, c) # writes xs"
| "writes (x # xs) = writes xs"

definition manifest :: "string \<Rightarrow> features \<Rightarrow> string stream \<Rightarrow> (path \<times> content) list" where
  "manifest projectName f uuids = writes (scaffold [] projectName f uuids)"

definition artifact :: "(path \<times> content) list \<Rightarrow> path \<Rightarrow> content option" where
  "artifact m p = map_of m p"

text \<open>The dependency mapping of a package manifest, as a map from package name to version.\<close>

fun property :: "json \<Rightarrow> string \<Rightarrow> json option" where
  "property (JObject kvs) k = map_of kvs k"
| "property j k = None"

fun dependencyKeys :: "content option \<Rightarrow> string set" where
  "dependencyKeys (Some (Json pkg)) =
     (case property pkg ''dependencies'' of
        Some (JObject kvs) \<Rightarrow> fst ` set kvs
      | _ \<Rightarrow> {})"
| "dependencyKeys c = {}"

text \<open>Whether a text occurs inside another.\<close>

fun starts_with :: "string \<Rightarrow> string \<Rightarrow> bool" where
  "starts_with [] s = True"
| "starts_with (x # xs) [] = False"
| "starts_with (x # xs) (y # ys) = (x = y \<and> starts_with xs ys)"

fun occurs_in :: "string \<Rightarrow> string \<Rightarrow> bool" where
  "occurs_in w [] = (w = [])"
| "occurs_in w (c # cs) = (starts_with w (c # cs) \<or> occurs_in w cs)"

text \<open>
  The value that an environment file gives to a variable: the rest of the first line that
  starts with the variable's name and an equals sign.
\<close>

fun split_lines :: "string \<Rightarrow> string list" where
  "split_lines [] = [[]]"
| "split_lines (c # cs) =
     (if c = CHR 0x0A then [] # split_lines cs
      else (case split_lines cs of l # ls \<Rightarrow> (c # l) # ls | [] \<Rightarrow> [[c]]))"

definition envValue :: "string \<Rightarrow> string \<Rightarrow> string option" where
  "envValue name t =
     (case filter (starts_with (name @ ''='')) (split_lines t) of
        [] \<Rightarrow> None
      | l # ls \<Rightarrow> Some (drop (length name + 1) l))"

fun secretOf :: "content option \<Rightarrow> string option" where
  "secretOf (Some (Text t)) = envValue ''BETTER_AUTH_SECRET'' t"
| "secretOf c = None"

subsection \<open>The whole run (lines 20--290)\<close>

text \<open>
  What the user sees: the banner, the notes, the spinner's start and stop messages and
  the closing box.  Colours and box borders are left out of the texts.
\<close>

datatype event =
    Intro
  | Note string
  | SpinnerStart string
  | SpinnerStop string
  | Outro string

text \<open>
  Everything a run depends on: the parsed flags, the answers the two prompts resolve to,
  the tokens \<^verbatim>\<open>randomUUID()\<close> will return, the working directory, the calls that will
  throw, and the disk before the run.
\<close>

record env =
  cli :: cli_values
  text_answer :: string
  multiselect_answer :: "string list option"
  uuid_source :: "string stream"
  cwd :: path
  io_error :: "fsop \<Rightarrow> string option"
  disk0 :: disk

text \<open>
  The exit status is 1 where \<^verbatim>\<open>process.exit(1)\<close> is called and 0 where
  \<^verbatim>\<open>main\<close> runs to its end.
\<close>

record result =
  exit_code :: nat
  final_disk :: disk
  messages :: "event list"

definition successMessage :: "string \<Rightarrow> string" where
  \<open>successMessage projectName =
     [CHR 0xE2, CHR 0x9C, CHR 0x85] @ '' Success! Your project '' @ projectName @ '' has been created.\<newline>\<newline>''
     @ ''To get started:\<newline>\<newline>''
     @ ''  cd '' @ projectName @ ''\<newline>''
     @ ''  bun install # or npm install / yarn\<newline>''
     @ ''  bun dev # or npm run dev / yarn dev\<newline>\<newline>''
     @ ''Happy coding! '' @ [CHR 0xF0, CHR 0x9F, CHR 0x9A, CHR 0x80]\<close>

text \<open>Lines 33--49.\<close>

definition resolveProjectName :: "env \<Rightarrow> string" where
  "resolveProjectName e = (if truthy (values_yes (cli e)) then ''my-app'' else text_answer e)"

text \<open>The notes of lines 37, 79--85 and 91--95.\<close>

definition inputNotes :: "env \<Rightarrow> event list" where
  "inputNotes e =
     (let selected = selectFeatures (cli e) (multiselect_answer e)
      in (if truthy (values_yes (cli e))
          then [Note (''Using default project name: '' @ resolveProjectName e)]
          else [])
       @ (if \<not> truthy (values_yes (cli e))
             \<and> (case multiselect_answer e of None \<Rightarrow> True | Some xs \<Rightarrow> xs = [])
          then [Note ''No optional features selected. Creating a minimal Next.js app.'']
          else [])
       @ (if auth selected \<and> \<not> db selected
          then [Note ''Authentication requires a database. MongoDB has been automatically enabled.'']
          else []))"

text \<open>Line 99, and the calls of the scaffolding block for this run.\<close>

definition projectDirOf :: "env \<Rightarrow> path" where
  "projectDirOf e = cwd e @ [resolveProjectName e]"

definition scaffoldOps :: "env \<Rightarrow> fsop list" where
  "scaffoldOps e =
     scaffold (projectDirOf e) (resolveProjectName e)
       (resolveFeatures (cli e) (multiselect_answer e)) (uuid_source e)"

definition main :: "env \<Rightarrow> result" where
  "main e =
     (let projectName = resolveProjectName e;
          out1 = [Intro] @ inputNotes e @ [SpinnerStart ''Creating project directory'']
      in
       case io_error e (Mkdir (projectDirOf e)) of
         Some err \<Rightarrow>
           \<lparr>exit_code = 1, final_disk = disk0 e,
            messages = out1 @ [SpinnerStop ''Failed to create project directory'']\<rparr>
       | None \<Rightarrow>
          (let d1 = apply_op (Mkdir (projectDirOf e)) (disk0 e);
               out2 = out1 @ [SpinnerStop ''Project directory created'',
                              SpinnerStart ''Scaffolding project files'']
           in
            case run_ops (io_error e) (scaffoldOps e) d1 of
              (Some err, d2) \<Rightarrow>
                \<lparr>exit_code = 1, final_disk = d2,
                 messages = out2 @ [SpinnerStop (''Failed to scaffold project: '' @ err)]\<rparr>
            | (None, d2) \<Rightarrow>
               (let out3 = out2 @ [SpinnerStop ''Project files created successfully'',
                                   SpinnerStart ''Initializing git repository''];
                    (git_err, d3) = run_ops (io_error e) (gitCommands (projectDirOf e)) d2;
                    out4 = out3 @ [SpinnerStop
                             (case git_err of
                                None \<Rightarrow> ''Git repository initialized''
                              | Some err \<Rightarrow> ''Failed to initialize git repository'')]
                in \<lparr>exit_code = 0, final_disk = d3,
                    messages = out4 @ [Outro (successMessage projectName)]\<rparr>)))"

section \<open>The second version of the program (lines 947--2087)\<close>

text \<open>
  The earlier version of the same pipeline.  Its flag handling, its correction step, its
  calls on the file system and its git commands are those of the first; what differs is
  the set of files and their texts.  Here are its generators and its scaffolding block
  (lines 1048--1222), which writes \<^verbatim>\<open>components/ReactScan.tsx\<close> and the root layout
  without looking at the feature set.
\<close>

definition baseDependencies_v2 :: "(string \<times> string) list" where
  "baseDependencies_v2 =
     [(''next'', ''^15.3.0''),
      (''react'', ''18.3.1''),
      (''tailwindcss-animate'', ''^1.0.7''),
      (''react-dom'', ''18.3.1''),
      (''@heroui/system'', ''2.4.13''),
      (''@heroui/theme'', ''2.4.13''),
      (''@heroui/toast'', ''^2.0.7''),
      (''@heroui/button'', ''2.2.17''),
      (''next-themes'', ''^0.4.6''),
      (''tailwindcss'', ''3.4.16''),
      (''postcss'', ''^8.4.31''),
      (''autoprefixer'', ''^10.4.16''),
      (''class-variance-authority'', ''^0.7.1''),
      (''clsx'', ''^2.1.1''),
      (''lucide-react'', ''^0.292.0''),
      (''tailwind-merge'', ''^2.0.0'')]"

definition dependencies_v2 :: "features \<Rightarrow> (string \<times> string) list" where
  "dependencies_v2 f =
     (let d0 = baseDependencies_v2;
          d1 = (if db f then AList.update ''mongodb'' ''^6.15.0'' d0 else d0);
          d2 = (if auth f then AList.update ''better-auth'' ''^1.2.7'' d1 else d1);
          d3 = (if reactScan f then AList.update ''react-scan'' ''^0.3.4'' d2 else d2)
      in d3)"

definition devDependencies_v2 :: "(string \<times> string) list" where
  "devDependencies_v2 =
     [(''@types/react'', ''^18.2.37''),
      (''@types/react-dom'', ''^18.2.15''),
      (''@types/node'', ''^20.9.0''),
      (''typescript'', ''^5.2.2''),
      (''eslint'', ''^8.53.0''),
      (''eslint-config-next'', ''^14.0.0''),
      (''prettier'', ''^3.0.3''),
      (''prettier-plugin-tailwindcss'', ''^0.5.7'')]"

definition generatePackageJson_v2 :: "string \<Rightarrow> features \<Rightarrow> json" where
  "generatePackageJson_v2 projectName f = JObject
     [(''name'', JString projectName),
      (''version'', JString ''0.1.0''),
      (''type'', JString ''module''),
      (''private'', JBool True),
      (''scripts'', JObject
         [(''dev'', JString ''next dev --turbopack''),
          (''build'', JString ''next build''),
          (''start'', JString ''next start''),
          (''lint'', JString ''next lint''),
          (''format'', JString ''prettier --write .'')]),
      (''dependencies'', record_json (dependencies_v2 f)),
      (''devDependencies'', record_json devDependencies_v2)]"

definition generateTsConfig_v2 :: json where
  "generateTsConfig_v2 = JObject
     [(''compilerOptions'', JObject
         [(''target'', JString ''es5''),
          (''lib'', JArray [JString ''dom'', JString ''dom.iterable'', JString ''esnext'']),
          (''allowJs'', JBool True),
          (''skipLibCheck'', JBool True),
          (''strict'', JBool True),
          (''forceConsistentCasingInFileNames'', JBool True),
          (''noEmit'', JBool True),
          (''esModuleInterop'', JBool True),
          (''module'', JString ''esnext''),
          (''moduleResolution'', JString ''node''),
          (''resolveJsonModule'', JBool True),
          (''isolatedModules'', JBool True),
          (''jsx'', JString ''preserve''),
          (''incremental'', JBool True),
          (''plugins'', JArray [JObject [(''name'', JString ''next'')]]),
          (''paths'', JObject [(''@/*'', JArray [JString ''./*''])])]),
      (''include'', JArray
         [JString ''next-env.d.ts'', JString ''**/*.ts'', JString ''**/*.tsx'',
          JString ''.next/types/**/*.ts'']),
      (''exclude'', JArray [JString ''node_modules''])]"

definition generateEnvFile_v2 :: "string \<Rightarrow> string \<Rightarrow> string" where
  \<open>generateEnvFile_v2 projectName uuid = join_lines
    [''MONGODB_URI="mongodb://localhost:27017/'' @ projectName @ ''"'',
     ''BETTER_AUTH_SECRET='' @ uuid,
     ''BETTER_AUTH_URL="http://localhost:3000"'',
     '''']\<close>

definition featuresSection_v2 :: "features \<Rightarrow> string" where
  \<open>featuresSection_v2 f =
     join_lines
       ['''',
        ''## Features'',
        '''',
        ''- '' @ [CHR 0xF0, CHR 0x9F, CHR 0x8E, CHR 0xA8] @ '' **TailwindCSS** - Utility-first CSS framework'',
        ''- '' @ [CHR 0xF0, CHR 0x9F, CHR 0xA7, CHR 0xA9] @ '' **ShadCN UI** - Accessible and customizable component library'',
        ''- '' @ [CHR 0xF0, CHR 0x9F, CHR 0x94, CHR 0x8D] @ '' **ESLint & Prettier** - Code linting and formatting'',
        ''- '' @ [CHR 0xF0, CHR 0x9F, CHR 0x94, CHR 0x84] @ '' **Git** - Version control with initial commit'',
        '''']
     @ (if db f
        then ''- '' @ [CHR 0xF0, CHR 0x9F, CHR 0x97, CHR 0x84] @ [CHR 0xEF, CHR 0xB8, CHR 0x8F] @ '' **MongoDB** - Database with MongoDB\<newline>''
        else '''')
     @ (if auth f
        then ''- '' @ [CHR 0xF0, CHR 0x9F, CHR 0x94, CHR 0x90] @ '' **Better-Auth** - Best Authentication system\<newline>''
        else '''')
     @ (if reactScan f
        then ''- '' @ [CHR 0xE2, CHR 0x9A, CHR 0xA1] @ '' **React Scan** - Performance analysis for React\<newline>''
        else '''')\<close>

definition generateReadme_v2 :: "string \<Rightarrow> features \<Rightarrow> string" where
  \<open>generateReadme_v2 projectName f = join_lines
    [''# '' @ projectName,
     '''',
     ''This project was bootstrapped with [create-untraceable-stack](https://github.com/TheUntraceable/create-untraceable-stack).'',
     '''',
     featuresSection_v2 f,
     '''',
     ''## Getting Started'',
     '''',
     ''First, install the dependencies:'',
     '''',
     ''```bash'',
     ''bun install'',
     ''# or'',
     ''npm install'',
     ''# or'',
     ''yarn install'',
     ''```'',
     '''',
     ''Then, run the development server:'',
     '''',
     ''```bash'',
     ''bun dev'',
     ''# or'',
     ''npm run dev'',
     ''# or'',
     ''yarn dev'',
     ''```'',
     '''',
     ''Open [http://localhost:3000](http://localhost:3000) with your browser to see the result.'',
     '''',
     ''## Learn More'',
     '''',
     ''To learn more about the technologies used in this project:'',
     '''',
     ''- [Next.js Documentation](https://nextjs.org/docs)'',
     ''- [TailwindCSS Documentation](https://tailwindcss.com/docs)'',
     ''- [ShadCN UI Documentation](https://ui.shadcn.com)'',
     (if db f then ''- [MongoDB Documentation](https://mongodb.com/docs)'' @ [CHR 0x5C] @ ''n'' else ''''),
     (if auth f then ''- [Better-Auth Documentation](https://better-auth.dev)'' @ [CHR 0x5C] @ ''n'' else ''''),
     (if reactScan f then ''- [React Scan Documentation](https://github.com/aidenybai/react-scan)'' @ [CHR 0x5C] @ ''n'' else '''')
       @ '' // Updated link and text'',
     '''']\<close>

definition generateNextConfig_v2 :: string where
  \<open>generateNextConfig_v2 = join_lines
    [''/** @type {import(\'next\').NextConfig} */'',
     ''const nextConfig = {};'',
     '''',
     ''export default nextConfig;'',
     '''']\<close>

definition generateGitignore_v2 :: string where
  \<open>generateGitignore_v2 = join_lines
    [''# dependencies'',
     ''/node_modules'',
     ''/.pnp'',
     ''.pnp.js'',
     '''',
     ''# testing'',
     ''/coverage'',
     '''',
     ''# next.js'',
     ''/.next/'',
     ''/out/'',
     '''',
     ''# production'',
     ''/build'',
     '''',
     ''# misc'',
     ''.DS_Store'',
     ''*.pem'',
     '''',
     ''# debug'',
     ''npm-debug.log*'',
     ''yarn-debug.log*'',
     ''yarn-error.log*'',
     '''',
     ''# local env files'',
     ''.env*.local'',
     ''.env'',
     '''',
     ''# vercel'',
     ''.vercel'',
     '''',
     ''# typescript'',
     ''*.tsbuildinfo'',
     ''next-env.d.ts'',
     '''']\<close>

definition generateLayout_v2 :: string where
  \<open>generateLayout_v2 = join_lines
    [''import "@/styles/globals.css";'',
     ''// This component must be the top-most import in this file!'',
     ''import { ReactScan } from "@/components/ReactScan";'',
     ''import clsx from "clsx";'',
     ''import { Metadata, Viewport } from "next";'',
     '''',
     ''import { fontSans } from "@/config/fonts";'',
     ''import { siteConfig } from "@/config/site";'',
     '''',
     ''import { Providers } from "./providers";'',
     '''',
     ''export const metadata: Metadata = {'',
     ''    description: siteConfig.description,'',
     ''    icons: {'',
     ''        icon: "/favicon.ico",'',
     ''    },'',
     ''    title: {'',
     ''        default: siteConfig.name,'',
     ''        template: `%s - ${siteConfig.name}`,'',
     ''    },'',
     ''};'',
     '''',
     ''export const viewport: Viewport = {'',
     ''    themeColor: ['',
     ''        { color: "white", media: "(prefers-color-scheme: light)" },'',
     ''        { color: "black", media: "(prefers-color-scheme: dark)" },'',
     ''    ],'',
     ''};'',
     '''',
     ''export default function RootLayout({'',
     ''    children,'',
     ''}: {'',
     ''    children: React.ReactNode;'',
     ''}) {'',
     ''    return ('',
     ''        <html suppressHydrationWarning lang="en">'',
     ''            <ReactScan />'',
     ''            <head />'',
     ''            <body'',
     ''                className={clsx('',
     ''                    "min-h-screen bg-background font-sans antialiased",'',
     ''                    fontSans.variable,'',
     ''                )}'',
     ''            >'',
     ''                <Providers'',
     ''                    themeProps={{ attribute: "class", defaultTheme: "dark" }}'',
     ''                >'',
     ''                    <div className="flex flex-col">'',
     ''                        <main className="grow">{children}</main>'',
     ''                    </div>'',
     ''                </Providers>'',
     ''            </body>'',
     ''        </html>'',
     ''    );'',
     ''}'']\<close>

definition generateFonts_v2 :: string where
  \<open>generateFonts_v2 = join_lines
    [''import { Fira_Code as FontMono, Inter as FontSans } from "next/font/google";'',
     '''',
     ''export const fontSans = FontSans({'',
     ''    subsets: ["latin"],'',
     ''    variable: "--font-sans",'',
     ''});'',
     '''',
     ''export const fontMono = FontMono({'',
     ''    subsets: ["latin"],'',
     ''    variable: "--font-mono",'',
     ''});'',
     '''']\<close>

definition generateSite_v2 :: string where
  \<open>generateSite_v2 = join_lines
    [''export type SiteConfig = typeof siteConfig;'',
     '''',
     ''export const siteConfig = {'',
     ''    name: "Create Untraceable Stack",'',
     ''    description:'',
     ''        "Get up and running fast with Untraceable Stack.",'',
     ''};'']\<close>

definition generateReactScanComponent_v2 :: string where
  \<open>generateReactScanComponent_v2 = join_lines
    [''"use client";'',
     ''// react-scan must be imported before react'',
     ''import { scan } from "react-scan";'',
     ''import { JSX, useEffect } from "react";'',
     '''',
     ''export function ReactScan(): JSX.Element {'',
     ''  useEffect(() => {'',
     ''    scan({'',
     ''      enabled: true,'',
     ''    });'',
     ''  }, []);'',
     '''',
     ''  return <></>;'',
     ''}'',
     '''']\<close>

definition generateHomePage_v2 :: string where
  \<open>generateHomePage_v2 = join_lines
    [''import { Button } from \'@heroui/button\';'',
     '''',
     ''export default function Home() {'',
     ''  return ('',
     ''    <div className="flex min-h-screen flex-col items-center justify-center p-4">'',
     ''      <div className="max-w-3xl text-center">'',
     ''        <h1 className="mb-4 text-4xl font-bold tracking-tight sm:text-5xl">'',
     ''          Welcome to <span className="text-primary">Untraceable Stack</span>'',
     ''        </h1>'',
     ''        <p className="mb-8 text-lg text-muted-foreground">'',
     ''          A modern Next.js application with TailwindCSS, ShadCN UI, and more.'',
     ''        </p>'',
     ''        <div className="flex flex-wrap justify-center gap-4">'',
     ''          <Button variant="shadow" color="primary>'',
     ''            <a href="https://heroui.org/docs" target="_blank" rel="noopener noreferrer">'',
     ''              Next.js Docs'',
     ''            </a>'',
     ''          </Button>'',
     ''          <Button variant="bordered">'',
     ''            <a href="https://ui.shadcn.com" target="_blank" rel="noopener noreferrer">'',
     ''              ShadCN UI'',
     ''            </a>'',
     ''          </Button>'',
     ''        </div>'',
     ''      </div>'',
     ''    </div>'',
     ''  );'',
     ''}'',
     '''']\<close>

definition generateGlobalCss_v2 :: string where
  \<open>generateGlobalCss_v2 = join_lines
    [''@tailwind base;'',
     ''@tailwind components;'',
     ''@tailwind utilities;'',
     '' '',
     ''@layer base {'',
     ''  :root {'',
     ''    --background: 0 0% 100%;'',
     ''    --foreground: 222.2 84% 4.9%;'',
     '''',
     ''    --card: 0 0% 100%;'',
     ''    --card-foreground: 222.2 84% 4.9%;'',
     '' '',
     ''    --popover: 0 0% 100%;'',
     ''    --popover-foreground: 222.2 84% 4.9%;'',
     '' '',
     ''    --primary: 222.2 47.4% 11.2%;'',
     ''    --primary-foreground: 210 40% 98%;'',
     '' '',
     ''    --secondary: 210 40% 96.1%;'',
     ''    --secondary-foreground: 222.2 47.4% 11.2%;'',
     '' '',
     ''    --muted: 210 40% 96.1%;'',
     ''    --muted-foreground: 215.4 16.3% 46.9%;'',
     '' '',
     ''    --accent: 210 40% 96.1%;'',
     ''    --accent-foreground: 222.2 47.4% 11.2%;'',
     '' '',
     ''    --destructive: 0 84.2% 60.2%;'',
     ''    --destructive-foreground: 210 40% 98%;'',
     '''',
     ''    --border: 214.3 31.8% 91.4%;'',
     ''    --input: 214.3 31.8% 91.4%;'',
     ''    --ring: 222.2 84% 4.9%;'',
     '' '',
     ''    --radius: 0.5rem;'',
     ''  }'',
     '' '',
     ''  .dark {'',
     ''    --background: 222.2 84% 4.9%;'',
     ''    --foreground: 210 40% 98%;'',
     '' '',
     ''    --card: 222.2 84% 4.9%;'',
     ''    --card-foreground: 210 40% 98%;'',
     '' '',
     ''    --popover: 222.2 84% 4.9%;'',
     ''    --popover-foreground: 210 40% 98%;'',
     '' '',
     ''    --primary: 210 40% 98%;'',
     ''    --primary-foreground: 222.2 47.4% 11.2%;'',
     '' '',
     ''    --secondary: 217.2 32.6% 17.5%;'',
     ''    --secondary-foreground: 210 40% 98%;'',
     '' '',
     ''    --muted: 217.2 32.6% 17.5%;'',
     ''    --muted-foreground: 215 20.2% 65.1%;'',
     '' '',
     ''    --accent: 217.2 32.6% 17.5%;'',
     ''    --accent-foreground: 210 40% 98%;'',
     '' '',
     ''    --destructive: 0 62.8% 30.6%;'',
     ''    --destructive-foreground: 210 40% 98%;'',
     '' '',
     ''    --border: 217.2 32.6% 17.5%;'',
     ''    --input: 217.2 32.6% 17.5%;'',
     ''    --ring: 212.7 26.8% 83.9%;'',
     ''  }'',
     ''}'',
     '' '',
     ''@layer base {'',
     ''  * {'',
     ''    @apply border-border;'',
     ''  }'',
     ''  body {'',
     ''    @apply bg-background text-foreground;'',
     ''  }'',
     ''}'']\<close>

definition generateUtils_v2 :: string where
  \<open>generateUtils_v2 = join_lines
    [''import { type ClassValue, clsx } from "clsx";'',
     ''import { twMerge } from "tailwind-merge";'',
     '''',
     ''export function cn(...inputs: ClassValue[]) {'',
     ''  return twMerge(clsx(inputs));'',
     ''}'',
     '''']\<close>

definition generateTailwindConfig_v2 :: string where
  \<open>generateTailwindConfig_v2 = join_lines
    [''import { heroui } from "@heroui/theme";'',
     '''',
     ''/** @type {import(\'tailwindcss\').Config} */'',
     ''const config = {'',
     ''    content: ['',
     ''        "./components/**/*.{js,ts,jsx,tsx,mdx}",'',
     ''        "./app/**/*.{js,ts,jsx,tsx,mdx}",'',
     ''        "./node_modules/@heroui/theme/dist/**/*.{js,ts,jsx,tsx}",'',
     ''    ],'',
     ''    theme: {'',
     ''        extend: {'',
     ''            fontFamily: {'',
     ''                sans: ["var(--font-sans)"],'',
     ''                mono: ["var(--font-mono)"],'',
     ''            },'',
     ''            borderRadius: {'',
     ''                lg: "var(--radius)",'',
     ''                md: "calc(var(--radius) - 2px)",'',
     ''                sm: "calc(var(--radius) - 4px)",'',
     ''            },'',
     ''            colors: {'',
     ''                border: {'',
     ''                    DEFAULT: "hsl(var(--border))",'',
     ''                    hover: "hsl(var(--border-hover))",'',
     ''                },'',
     ''            },'',
     ''        },'',
     ''    },'',
     ''    darkMode: "class",'',
     ''    plugins: [heroui(), require("tailwindcss-animate")],'',
     ''};'',
     '''',
     ''module.exports = config;'',
     '''']\<close>

definition generatePostcssConfig_v2 :: string where
  \<open>generatePostcssConfig_v2 = join_lines
    [''module.exports = {'',
     ''  plugins: {'',
     ''    tailwindcss: {},'',
     ''    autoprefixer: {},'',
     ''  },'',
     ''}'']\<close>

definition generateEslintConfig_v2 :: string where
  \<open>generateEslintConfig_v2 = join_lines
    [''import js from "@eslint/js";'',
     ''import globals from "globals";'',
     ''import typescriptPlugin from "@typescript-eslint/eslint-plugin";'',
     ''import tsParser from "@typescript-eslint/parser";'',
     ''import reactPlugin from "eslint-plugin-react";'',
     ''import reactHooksPlugin from "eslint-plugin-react-hooks";'',
     ''import jsxA11yPlugin from "eslint-plugin-jsx-a11y";'',
     ''import prettierPlugin from "eslint-plugin-prettier";'',
     ''import nextPlugin from "@next/eslint-plugin-next";'',
     ''import importPlugin from "eslint-plugin-import";'',
     ''// If using eslint-plugin-import with TypeScript, you might need this resolver'',
     ''// Make sure to install it: npm install -D eslint-import-resolver-typescript'',
     ''// import typescriptResolver from \'eslint-import-resolver-typescript\';'',
     '''',
     ''export default ['',
     ''    // Ignore patterns'',
     ''    {'',
     ''        ignores: ['',
     ''            ".now/*",'',
     ''            "**/*.css",'',
     ''            "**/.changeset",'',
     ''            "**/dist",'',
     ''            "esm/*",'',
     ''            "public/*",'',
     ''            "tests/*",'',
     ''            "scripts/*",'',
     ''            "**/*.config.js",'',
     ''            "**/.DS_Store",'',
     ''            "**/node_modules",'',
     ''            "**/coverage",'',
     ''            "**/.next",'',
     ''            "**/build",'',
     ''            "!**/.commitlintrc.cjs",'',
     ''            "!**/.lintstagedrc.cjs",'',
     ''            "!**/jest.config.js",'',
     ''            "!**/plopfile.js",'',
     ''            "!**/react-shim.js",'',
     ''            "!**/tsup.config.ts",'',
     ''        ],'',
     ''    },'',
     '''',
     ''    // Base JS configuration'',
     ''    {'',
     ''        ...js.configs.recommended,'',
     ''        files: ["**/*.js", "**/*.cjs", "**/*.mjs"],'',
     ''        languageOptions: {'',
     ''            ecmaVersion: 2023,'',
     ''            sourceType: "module", // Use \'commonjs\' for .cjs files if needed, or configure per file type'',
     ''            globals: {'',
     ''                ...globals.node, // Base Node.js globals'',
     ''            },'',
     ''        },'',
     ''        rules: {'',
     ''            // Customize base JS rules here if needed'',
     ''            "no-unused-vars": ["warn", { argsIgnorePattern: "^_" }], // Warn about unused vars, ignore if starts with _'',
     ''            "no-console": "warn", // Warn about console.log'',
     ''            eqeqeq: ["error", "always"], // Enforce ==='',
     ''            "no-undef": "error", // Disallow undeclared variables'',
     ''        },'',
     ''    },'',
     '''',
     ''    // TypeScript configuration'',
     ''    {'',
     ''        files: ["**/*.ts", "**/*.tsx"],'',
     ''        plugins: {'',
     ''            "@typescript-eslint": typescriptPlugin,'',
     ''            import: importPlugin, // Add import plugin for TS files too'',
     ''        },'',
     ''        languageOptions: {'',
     ''            parser: tsParser,'',
     ''            parserOptions: {'',
     ''                ecmaVersion: 2023,'',
     ''                sourceType: "module",'',
     ''                ecmaFeatures: {'',
     ''                    jsx: true,'',
     ''                },'',
     ''                project: "./tsconfig.json",'',
     ''                tsconfigRootDir: ".",'',
     ''            },'',
     ''            globals: {'',
     ''                ...globals.browser,'',
     ''                ...globals.node,'',
     ''            },'',
     ''        },'',
     ''        settings: {'',
     ''            // Configure \'eslint-plugin-import\' resolver for TypeScript'',
     ''            "import/resolver": {'',
     ''                typescript: {}, // Uses tsconfig.json'',
     ''                node: true,'',
     ''            },'',
     ''            "import/parsers": {'',
     ''                "@typescript-eslint/parser": [".ts", ".tsx"],'',
     ''            },'',
     ''        },'',
     ''        rules: {'',
     ''            ...typescriptPlugin.configs.recommended.rules,'',
     ''            ...importPlugin.configs.typescript.rules, // Add import rules for TS'',
     '''',
     ''            // Keep essential TS rules or adjust as needed'',
     ''            "@typescript-eslint/explicit-function-return-type": "off",'',
     ''            "@typescript-eslint/explicit-module-boundary-types": "off",'',
     ''            "@typescript-eslint/no-explicit-any": "warn",'',
     ''            "@typescript-eslint/no-unused-vars": ['',
     ''                "warn",'',
     ''                { argsIgnorePattern: "^_" },'',
     ''            ],'',
     ''            "@typescript-eslint/no-floating-promises": "error", // Good practice for async code'',
     ''            "@typescript-eslint/no-misused-promises": "error", // Good practice for async code'',
     '''',
     ''            // Import plugin rules adjustments (optional)'',
     ''            "import/order": ['',
     ''                "warn",'',
     ''                {'',
     ''                    groups: ['',
     ''                        "builtin",'',
     ''                        "external",'',
     ''                        "internal",'',
     ''                        "parent",'',
     ''                        "sibling",'',
     ''                        "index",'',
     ''                        "object",'',
     ''                        "type",'',
     ''                    ],'',
     ''                    "newlines-between": "always",'',
     ''                    alphabetize: { order: "asc", caseInsensitive: true },'',
     ''                },'',
     ''            ],'',
     ''            "import/no-unresolved": "error", // Ensure imports can be resolved'',
     ''            "import/no-duplicates": "warn", // Warn on duplicate imports'',
     ''        },'',
     ''    },'',
     '''',
     ''    // React configuration'',
     ''    {'',
     ''        files: ["**/*.jsx", "**/*.tsx"],'',
     ''        plugins: {'',
     ''            react: reactPlugin,'',
     ''            "react-hooks": reactHooksPlugin,'',
     ''            "jsx-a11y": jsxA11yPlugin,'',
     ''        },'',
     ''        languageOptions: {'',
     ''            // Ensure JSX is enabled for JS files too if needed'',
     ''            parserOptions: {'',
     ''                ecmaFeatures: {'',
     ''                    jsx: true,'',
     ''                },'',
     ''            },'',
     ''            globals: {'',
     ''                ...globals.browser, // Add browser globals for React components'',
     ''            },'',
     ''        },'',
     ''        settings: {'',
     ''            react: {'',
     ''                version: "detect",'',
     ''            },'',
     ''        },'',
     ''        rules: {'',
     ''            ...reactPlugin.configs.recommended.rules,'',
     ''            ...reactHooksPlugin.configs.recommended.rules,'',
     ''            ...jsxA11yPlugin.configs.recommended.rules,'',
     ''            "react/prop-types": "off", // Often handled by TypeScript'',
     ''            "react/react-in-jsx-scope": "off", // Not needed with React 17+'',
     ''            "react-hooks/exhaustive-deps": "warn", // Keep this for hook correctness'',
     ''        },'',
     ''    },'',
     '''',
     ''    // Next.js configuration'',
     ''    {'',
     ''        files: ["**/*.js", "**/*.jsx", "**/*.ts", "**/*.tsx"], // Apply to all relevant files'',
     ''        plugins: {'',
     ''            "@next/next": nextPlugin,'',
     ''        },'',
     ''        rules: {'',
     ''            ...nextPlugin.configs.recommended.rules,'',
     ''            ...nextPlugin.configs["core-web-vitals"].rules, // Include core web vitals'',
     ''            // Add specific Next.js rules if needed'',
     ''        },'',
     ''    },'',
     '''',
     ''    // Prettier configuration (Must be last)'',
     ''    {'',
     ''        // Apply Prettier formatting rules to all relevant file types'',
     ''        files: ['',
     ''            "**/*.js",'',
     ''            "**/*.jsx",'',
     ''            "**/*.ts",'',
     ''            "**/*.tsx",'',
     ''            "**/*.cjs",'',
     ''            "**/*.mjs",'',
     ''        ],'',
     ''        plugins: {'',
     ''            prettier: prettierPlugin,'',
     ''        },'',
     ''        rules: {'',
     ''            "prettier/prettier": "warn", // Show Prettier issues as warnings'',
     ''            // Disable rules that conflict with Prettier if necessary'',
     ''            // (Often handled by eslint-config-prettier, but here we apply directly)'',
     ''            "arrow-body-style": "off",'',
     ''            "prefer-arrow-callback": "off",'',
     ''            // Add any other rules known to conflict with Prettier here'',
     ''        },'',
     ''    },'',
     ''];'']\<close>

definition generateMongoDbConfig_v2 :: string where
  \<open>generateMongoDbConfig_v2 = join_lines
    [''import { MongoClient } from "mongodb";'',
     '''',
     ''if (!process.env.MONGODB_URI) {'',
     ''    throw new Error(\'Invalid/Missing environment variable: "MONGODB_URI"\');'',
     ''}'',
     '''',
     ''const uri = process.env.MONGODB_URI;'',
     ''const options = {};'',
     '''',
     ''let client: MongoClient;'',
     '''',
     ''if (process.env.NODE_ENV === "development") {'',
     ''    let globalWithMongo = global as typeof globalThis & {'',
     ''        _mongoClient?: MongoClient;'',
     ''    };'',
     '''',
     ''    if (!globalWithMongo._mongoClient) {'',
     ''        globalWithMongo._mongoClient = new MongoClient(uri, options);'',
     ''    }'',
     ''    client = globalWithMongo._mongoClient;'',
     ''} else {'',
     ''    client = new MongoClient(uri, options);'',
     ''}'',
     '''',
     ''export { client };'']\<close>

definition generateAuthConfig_v2 :: string where
  \<open>generateAuthConfig_v2 = join_lines
    [''import { betterAuth } from "better-auth";'',
     ''import { mongodbAdapter } from "better-auth/adapters/mongodb";'',
     ''import { client } from "@/lib/db";'',
     '''',
     ''const db = client.db("auth");'',
     '''',
     ''export const auth = betterAuth({'',
     ''    database: mongodbAdapter(db)'',
     ''});'']\<close>

definition generateAuthClient_v2 :: string where
  \<open>generateAuthClient_v2 = join_lines
    [''import { createAuthClient } from "better-auth/react"'',
     ''export const authClient = createAuthClient({'',
     ''    baseURL: "http://localhost:3000"'',
     ''})'']\<close>

definition generateProviders_v2 :: string where
  \<open>generateProviders_v2 = join_lines
    [''"use client";'',
     '''',
     ''import type { ThemeProviderProps } from "next-themes";'',
     ''import { ThemeProvider as NextThemesProvider } from "next-themes";'',
     ''import { useRouter } from "next/navigation";'',
     ''import * as React from "react";'',
     '''',
     ''import { HeroUIProvider } from "@heroui/system";'',
     ''import { ToastProvider } from "@heroui/toast";'',
     '''',
     ''export interface ProvidersProps {'',
     ''    children: React.ReactNode;'',
     ''    themeProps?: ThemeProviderProps;'',
     ''}'',
     '''',
     ''declare module "@react-types/shared" {'',
     ''    interface RouterConfig {'',
     ''        routerOptions: NonNullable<'',
     ''            Parameters<ReturnType<typeof useRouter>["push"]>[1]'',
     ''        >;'',
     ''    }'',
     ''}'',
     '''',
     ''export const Providers = ({ children, themeProps }: ProvidersProps) => {'',
     ''    const router = useRouter();'',
     '''',
     ''    return ('',
     ''        <HeroUIProvider navigate={router.push}>'',
     ''            <ToastProvider />'',
     ''            <NextThemesProvider {...themeProps}>'',
     ''                {children}'',
     ''            </NextThemesProvider>'',
     ''        </HeroUIProvider>'',
     ''    );'',
     ''};'']\<close>

definition generateAuthRoute_v2 :: string where
  \<open>generateAuthRoute_v2 = join_lines
    [''import { auth } from "@/lib/auth";'',
     ''import { toNextJsHandler } from "better-auth/next-js";'',
     '' '',
     ''export const { POST, GET } = toNextJsHandler(auth);'']\<close>

definition generatePrettierConfig_v2 :: json where
  "generatePrettierConfig_v2 = JObject
     [(''tabWidth'', JNumber 4),
      (''plugins'', JArray [JString ''prettier-plugin-tailwindcss''])]"

definition generateVsCodeSettings_v2 :: json where
  "generateVsCodeSettings_v2 = JObject
     [(''editor.formatOnSave'', JBool True),
      (''editor.defaultFormatter'', JString ''rvest.vs-code-prettier-eslint''),
      (''editor.codeActionsOnSave'', JObject [(''source.fixAll.eslint'', JBool True)]),
      (''typescript.tsdk'', JString ''node_modules/typescript/lib''),
      (''typescript.enablePromptUseWorkspaceTsdk'', JBool True)]"

definition generateComponentsJson_v2 :: json where
  "generateComponentsJson_v2 = JObject
     [(''$schema'', JString ''https://ui.shadcn.com/schema.json''),
      (''style'', JString ''new-york''),
      (''rsc'', JBool True),
      (''tsx'', JBool True),
      (''tailwind'', JObject
         [(''config'', JString ''tailwind.config.js''),
          (''css'', JString ''styles/globals.css''),
          (''baseColor'', JString ''zinc''),
          (''cssVariables'', JBool False),
          (''prefix'', JString '''')]),
      (''aliases'', JObject
         [(''components'', JString ''@/components''),
          (''utils'', JString ''@/lib/utils''),
          (''ui'', JString ''@/components/ui''),
          (''lib'', JString ''@/lib''),
          (''hooks'', JString ''@/hooks'')]),
      (''iconLibrary'', JString ''lucide'')]"

definition scaffold_v2 :: "path \<Rightarrow> string \<Rightarrow> features \<Rightarrow> string stream \<Rightarrow> fsop list" where
  "scaffold_v2 projectDir projectName f uuids =
     (let (uuid1, uuids1) = randomUUID uuids;
          (uuid2, uuids2) = randomUUID uuids1
      in
       [WriteFile (projectDir @ [''package.json'']) (Json (generatePackageJson_v2 projectName f)),
        WriteFile (projectDir @ [''next.config.js'']) (Text generateNextConfig_v2),
        WriteFile (projectDir @ [''tsconfig.json'']) (Json generateTsConfig_v2),
        WriteFile (projectDir @ [''.env'']) (Text (generateEnvFile_v2 projectName uuid1)),
        WriteFile (projectDir @ [''.env.example'']) (Text (generateEnvFile_v2 projectName uuid2)),
        WriteFile (projectDir @ [''.gitignore'']) (Text generateGitignore_v2),
        WriteFile (projectDir @ [''README.md'']) (Text (generateReadme_v2 projectName f)),
        Mkdir (projectDir @ [''config'']),
        WriteFile (projectDir @ [''config'', ''site.ts'']) (Text generateSite_v2),
        WriteFile (projectDir @ [''config'', ''fonts.ts'']) (Text generateFonts_v2),
        Mkdir (projectDir @ [''app'']),
        WriteFile (projectDir @ [''app'', ''layout.tsx'']) (Text generateLayout_v2),
        WriteFile (projectDir @ [''app'', ''page.tsx'']) (Text generateHomePage_v2),
        Mkdir (projectDir @ [''styles'']),
        WriteFile (projectDir @ [''styles'', ''globals.css'']) (Text generateGlobalCss_v2),
        Mkdir (projectDir @ [''components'']),
        Mkdir (projectDir @ [''components'', ''ui'']),
        WriteFile (projectDir @ [''components'', ''ReactScan.tsx''])
          (Text generateReactScanComponent_v2),
        Mkdir (projectDir @ [''lib'']),
        WriteFile (projectDir @ [''lib'', ''utils.ts'']) (Text generateUtils_v2),
        WriteFile (projectDir @ [''tailwind.config.js'']) (Text generateTailwindConfig_v2),
        WriteFile (projectDir @ [''components.json'']) (Json generateComponentsJson_v2),
        WriteFile (projectDir @ [''app'', ''providers.tsx'']) (Text generateProviders_v2),
        WriteFile (projectDir @ [''postcss.config.js'']) (Text generatePostcssConfig_v2),
        WriteFile (projectDir @ [''eslint.config.mjs'']) (Text generateEslintConfig_v2),
        WriteFile (projectDir @ [''.prettierrc'']) (Json generatePrettierConfig_v2),
        Mkdir (projectDir @ [''.vscode'']),
        WriteFile (projectDir @ [''.vscode'', ''settings.json'']) (Json generateVsCodeSettings_v2)]
       @ (if db f
          then [WriteFile (projectDir @ [''lib'', ''db.ts'']) (Text generateMongoDbConfig_v2)]
          else [])
       @ (if auth f
          then [WriteFile (projectDir @ [''lib'', ''auth.ts'']) (Text generateAuthConfig_v2),
                WriteFile (projectDir @ [''lib'', ''auth-client.ts'']) (Text generateAuthClient_v2),
                Mkdir (projectDir @ [''app'', ''api'']),
                Mkdir (projectDir @ [''app'', ''api'', ''auth'']),
                Mkdir (projectDir @ [''app'', ''api'', ''auth'', ''[...all]'']),
                WriteFile (projectDir @ [''app'', ''api'', ''auth'', ''[...all]'', ''route.ts''])
                  (Text generateAuthRoute_v2)]
          else []))"

definition manifest_v2 :: "string \<Rightarrow> features \<Rightarrow> string stream \<Rightarrow> (path \<times> content) list" where
  "manifest_v2 projectName f uuids = writes (scaffold_v2 [] projectName f uuids)"

section \<open>Example runs\<close>

text \<open>
  Two concrete runs in the directory \<^verbatim>\<open>/work\<close>, both with \<^verbatim>\<open>--yes --auth\<close> on an
  empty disk.  In the first, \<^verbatim>\<open>git add .\<close> fails; in the second, writing
  \<^verbatim>\<open>.env.example\<close> fails.
\<close>

definition example_cli :: cli_values where
  "example_cli =
     \<lparr>values_db = None, values_auth = Some True, values_reactScan = None,
      values_yes = Some True\<rparr>"

definition git_add_fails :: "fsop \<Rightarrow> string option" where
  "git_add_fails x =
     (case x of
        ExecSync cmd dir \<Rightarrow>
          (if cmd = ''git add .'' then Some ''Error: Command failed: git add .'' else None)
      | _ \<Rightarrow> None)"

definition env_example_write_fails :: "fsop \<Rightarrow> string option" where
  "env_example_write_fails x =
     (case x of
        WriteFile p c \<Rightarrow>
          (if p = [''work'', ''my-app'', ''.env.example'']
           then Some ''Error: EACCES: permission denied''
           else None)
      | _ \<Rightarrow> None)"

definition run_with :: "(fsop \<Rightarrow> string option) \<Rightarrow> env" where
  "run_with io =
     \<lparr>cli = example_cli, text_answer = '''', multiselect_answer = None,
      uuid_source = ''token-1'' ## ''token-2'' ## sconst ''token-3'',
      cwd = [''work''], io_error = io,
      disk0 = \<lparr>files = Map.empty, dirs = {[''work'']}\<rparr>\<rparr>"

section \<open>Properties\<close>

subsection \<open>Project-name validation\<close>

lemma test_plus_anchored_iff:
  "test_plus_anchored cls s = (s \<noteq> [] \<and> (\<forall>c\<in>set s. class_matches cls c))"
  by (induction s) auto

lemma char_in_allowed_iff:
  "(c \<in> allowed_chars) = ((of_char c :: nat) \<in> of_char ` allowed_chars)"
  by (simp add: inj_image_mem_iff [OF inj_of_char])

lemma class_name_iff: "class_matches name_class c = (c \<in> allowed_chars)"
proof -
  define n where "n = (of_char c :: nat)"
  have cl: "class_matches name_class c =
      ((97 \<le> n \<and> n \<le> 122) \<or> (48 \<le> n \<and> n \<le> 57) \<or> n = 45 \<or> n = 95)"
    unfolding class_matches_def name_class_def n_def
    by (simp add: of_char_eq_iff [where ?'a = nat, symmetric] del: of_char_eq_iff)
  have al: "(c \<in> allowed_chars) = (n \<in> of_char ` allowed_chars)"
    unfolding n_def by (rule char_in_allowed_iff)
  show ?thesis unfolding cl al by (simp add: allowed_chars_def, arith)
qed

lemma validate_None_iff: "(validate s = None) = spec_name_ok s"
  by (auto simp: validate_def spec_name_ok_def test_plus_anchored_iff class_name_iff)

text \<open>
  C10: validation accepts exactly the strings matching \<^verbatim>\<open>^[a-z0-9-_]+$\<close>.  A string
  that is non-empty and made only of lowercase letters, digits, hyphens and underscores is
  accepted (\<^verbatim>\<open>validate\<close> returns \<^verbatim>\<open>undefined\<close>); the empty string and every string
  with a character outside that set is rejected with a message.
\<close>

theorem C10_validate_accepts_exactly_the_pattern:
  "(spec_name_ok s \<longrightarrow> validate s = None) \<and>
   (s = [] \<or> (\<exists>c\<in>set s. c \<notin> allowed_chars) \<longrightarrow> (\<exists>msg. validate s = Some msg))"
proof -
  have "s = [] \<or> (\<exists>c\<in>set s. c \<notin> allowed_chars) \<Longrightarrow> \<not> spec_name_ok s"
    by (auto simp: spec_name_ok_def)
  then show ?thesis
    using validate_None_iff [of s] by (cases "validate s") auto
qed

theorem C10_validate_witness:
  "spec_name_ok ''my-app_2'' \<and> validate ''my-app_2'' = None \<and>
   (\<exists>c\<in>set ''My app''. c \<notin> allowed_chars) \<and>
   validate ''My app'' =
     Some ''Project name can only contain lowercase letters, numbers, hyphens, and underscores'' \<and>
   validate '''' = Some ''Please enter a project name''"
  using C10_validate_accepts_exactly_the_pattern [of "''my-app_2''"]
        C10_validate_accepts_exactly_the_pattern [of "''My app''"]
  by (simp add: spec_name_ok_def allowed_chars_def validate_def name_class_def class_matches_def)

subsection \<open>The cross-feature correction\<close>

text \<open>
  C4: after the correction step the feature set satisfies "authentication implies
  database", for the step alone on any feature set and for the feature set that
  \<^verbatim>\<open>main\<close> resolves from any flags and any prompt answer; and the step is idempotent.
\<close>

theorem C4_correction_invariant_and_idempotent:
  "(auth (enableDbForAuth f) \<longrightarrow> db (enableDbForAuth f)) \<and>
   enableDbForAuth (enableDbForAuth f) = enableDbForAuth f \<and>
   (auth (resolveFeatures v answer) \<longrightarrow> db (resolveFeatures v answer))"
  by (simp add: enableDbForAuth_def resolveFeatures_def)

theorem C4_correction_witness:
  "auth (enableDbForAuth \<lparr>db = False, auth = True, reactScan = False\<rparr>) \<and>
   db (enableDbForAuth \<lparr>db = False, auth = True, reactScan = False\<rparr>) \<and>
   auth (resolveFeatures
           \<lparr>values_db = None, values_auth = Some True, values_reactScan = None,
            values_yes = Some True\<rparr> None) \<and>
   db (resolveFeatures
           \<lparr>values_db = None, values_auth = Some True, values_reactScan = None,
            values_yes = Some True\<rparr> None)"
  using C4_correction_invariant_and_idempotent
          [of "\<lparr>db = False, auth = True, reactScan = False\<rparr>"
              "\<lparr>values_db = None, values_auth = Some True, values_reactScan = None,
                values_yes = Some True\<rparr>" None]
  by (simp add: enableDbForAuth_def resolveFeatures_def selectFeatures_def flagFeatures_def
        truthy_def orFalse_def)

subsection \<open>The manifest, file by file\<close>

lemma writes_append: "writes (xs @ ys) = writes xs @ writes ys"
  by (induction xs rule: writes.induct) simp_all

lemma manifest_unfold:
  "manifest projectName f us =
     [([''package.json''], Json (generatePackageJson projectName f)),
      ([''next.config.js''], Text generateNextConfig),
      ([''tsconfig.json''], Json generateTsConfig),
      ([''.env''], Text (generateEnvFile projectName (shd us))),
      ([''.env.example''], Text (generateEnvFile projectName (shd (stl us)))),
      ([''.gitignore''], Text generateGitignore),
      ([''README.md''], Text (generateReadme projectName f)),
      ([''config'', ''site.ts''], Text generateSite),
      ([''config'', ''fonts.ts''], Text generateFonts),
      ([''app'', ''layout.tsx''], Text (generateLayout f)),
      ([''app'', ''page.tsx''], Text generateHomePage),
      ([''styles'', ''globals.css''], Text generateGlobalCss),
      ([''lib'', ''utils.ts''], Text generateUtils),
      ([''tailwind.config.js''], Text generateTailwindConfig),
      ([''components.json''], Json generateComponentsJson),
      ([''app'', ''providers.tsx''], Text generateProviders),
      ([''postcss.config.js''], Text generatePostcssConfig),
      ([''biome.json''], Text generateBiomeConfig),
      ([''.vscode'', ''settings.json''], Json generateVsCodeSettings)]
     @ (if db f then [([''lib'', ''db.ts''], Text generateMongoDbConfig)] else [])
     @ (if auth f
        then [([''lib'', ''auth.ts''], Text generateAuthConfig),
              ([''lib'', ''auth-client.ts''], Text generateAuthClient),
              ([''app'', ''api'', ''auth'', ''[...all]'', ''route.ts''], Text generateAuthRoute)]
        else [])"
  by (simp add: manifest_def scaffold_def randomUUID_def writes_append)

lemma update_fresh: "k \<notin> fst ` set al \<Longrightarrow> AList.update k v al = al @ [(k, v)]"
  by (induction al) auto

lemma dependencies_unfold:
  "dependencies f =
     baseDependencies
     @ (if db f then [(''mongodb'', ''^6.15.0'')] else [])
     @ (if auth f then [(''better-auth'', ''^1.2.12'')] else [])
     @ (if reactScan f then [(''react-scan'', ''^0.4.3'')] else [])"
  by (simp add: dependencies_def baseDependencies_def)

lemma distinct_dependency_keys: "distinct (map fst (dependencies f))"
  by (simp add: dependencies_unfold baseDependencies_def)

subsection \<open>The package manifest's dependency mapping\<close>

text \<open>
  C7: the dependency mapping of the package manifest starts from the fixed base mapping
  and only gains keys.  For every project name and feature set the mapping keeps every
  key/value pair of the base mapping, the all-false feature set gives exactly the base
  mapping, no key occurs twice, switching more flags on only adds pairs, and the
  dev-dependency mapping is the same fixed mapping for every feature set.
\<close>

theorem C7_dependencies_monotone:
  "property (generatePackageJson projectName f) ''dependencies''
     = Some (record_json (dependencies f)) \<and>
   property (generatePackageJson projectName f) ''devDependencies''
     = Some (record_json devDependencies) \<and>
   dependencies \<lparr>db = False, auth = False, reactScan = False\<rparr> = baseDependencies \<and>
   set baseDependencies \<subseteq> set (dependencies f) \<and>
   map_of (dependencies \<lparr>db = False, auth = False, reactScan = False\<rparr>)
     \<subseteq>\<^sub>m map_of (dependencies f) \<and>
   ((db f \<longrightarrow> db g) \<and> (auth f \<longrightarrow> auth g) \<and> (reactScan f \<longrightarrow> reactScan g)
      \<longrightarrow> map_of (dependencies f) \<subseteq>\<^sub>m map_of (dependencies g))"
proof -
  have sub: "set (dependencies a) \<subseteq> set (dependencies b)"
    if "db a \<longrightarrow> db b" "auth a \<longrightarrow> auth b" "reactScan a \<longrightarrow> reactScan b" for a b
    using that by (auto simp: dependencies_unfold)
  have le: "map_of (dependencies a) \<subseteq>\<^sub>m map_of (dependencies b)"
    if "set (dependencies a) \<subseteq> set (dependencies b)" for a b
  proof (rule map_le_def [THEN iffD2], rule ballI)
    fix k assume "k \<in> dom (map_of (dependencies a))"
    then obtain v where v: "map_of (dependencies a) k = Some v" by auto
    then have "(k, v) \<in> set (dependencies b)" using that by (auto dest: map_of_SomeD)
    then have "map_of (dependencies b) k = Some v"
      using distinct_dependency_keys [of b] by simp
    with v show "map_of (dependencies a) k = map_of (dependencies b) k" by simp
  qed
  have base: "dependencies \<lparr>db = False, auth = False, reactScan = False\<rparr> = baseDependencies"
    by (simp add: dependencies_unfold)
  have "set baseDependencies \<subseteq> set (dependencies f)"
    by (auto simp: dependencies_unfold)
  moreover have "map_of (dependencies \<lparr>db = False, auth = False, reactScan = False\<rparr>)
      \<subseteq>\<^sub>m map_of (dependencies f)"
    by (rule le, rule sub) simp_all
  moreover have "property (generatePackageJson projectName f) ''dependencies''
      = Some (record_json (dependencies f))"
    by (simp add: generatePackageJson_def)
  moreover have "property (generatePackageJson projectName f) ''devDependencies''
      = Some (record_json devDependencies)"
    by (simp add: generatePackageJson_def)
  ultimately show ?thesis using base sub le by blast
qed

theorem C7_dependencies_witness:
  "map_of (dependencies \<lparr>db = True, auth = False, reactScan = False\<rparr>)
     \<subseteq>\<^sub>m map_of (dependencies \<lparr>db = True, auth = True, reactScan = True\<rparr>) \<and>
   map_of (dependencies \<lparr>db = True, auth = True, reactScan = True\<rparr>) ''next'' = Some ''^15.4.0'' \<and>
   map_of (dependencies \<lparr>db = True, auth = True, reactScan = True\<rparr>) ''react-scan'' = Some ''^0.4.3''"
  using C7_dependencies_monotone
          [of "''my-app''" "\<lparr>db = True, auth = False, reactScan = False\<rparr>"
              "\<lparr>db = True, auth = True, reactScan = True\<rparr>"]
  by (simp add: dependencies_unfold baseDependencies_def)

subsection \<open>Optional artifacts\<close>

text \<open>
  C5: in the manifest derived from the corrected feature set, a selected database
  feature gives the data-access file \<^verbatim>\<open>lib/db.ts\<close>, and a selected authentication
  feature gives \<^verbatim>\<open>lib/auth.ts\<close>, \<^verbatim>\<open>lib/auth-client.ts\<close>, the catch-all route handler
  \<^verbatim>\<open>app/api/auth/[...all]/route.ts\<close> and, through the correction step, \<^verbatim>\<open>lib/db.ts\<close>
  as well.
\<close>

theorem C5_optional_artifacts_present:
  "(db f \<longrightarrow>
      artifact (manifest projectName (enableDbForAuth f) us) [''lib'', ''db.ts'']
        = Some (Text generateMongoDbConfig)) \<and>
   (auth f \<longrightarrow>
      artifact (manifest projectName (enableDbForAuth f) us) [''lib'', ''auth.ts'']
        = Some (Text generateAuthConfig) \<and>
      artifact (manifest projectName (enableDbForAuth f) us) [''lib'', ''auth-client.ts'']
        = Some (Text generateAuthClient) \<and>
      artifact (manifest projectName (enableDbForAuth f) us)
          [''app'', ''api'', ''auth'', ''[...all]'', ''route.ts'']
        = Some (Text generateAuthRoute) \<and>
      artifact (manifest projectName (enableDbForAuth f) us) [''lib'', ''db.ts'']
        = Some (Text generateMongoDbConfig))"
  by (simp add: manifest_unfold artifact_def enableDbForAuth_def)

theorem C5_optional_artifacts_witness:
  "auth \<lparr>db = False, auth = True, reactScan = False\<rparr> \<and>
   artifact (manifest ''my-app'' (enableDbForAuth \<lparr>db = False, auth = True, reactScan = False\<rparr>)
       (''t1'' ## ''t2'' ## sconst ''t3'')) [''lib'', ''db.ts'']
     = Some (Text generateMongoDbConfig) \<and>
   artifact (manifest ''my-app'' (enableDbForAuth \<lparr>db = False, auth = True, reactScan = False\<rparr>)
       (''t1'' ## ''t2'' ## sconst ''t3'')) [''lib'', ''auth.ts'']
     = Some (Text generateAuthConfig)"
  using C5_optional_artifacts_present
          [of "\<lparr>db = False, auth = True, reactScan = False\<rparr>" "''my-app''"
              "''t1'' ## ''t2'' ## sconst ''t3''"]
  by simp

subsection \<open>Determinism of the derivation\<close>

text \<open>
  C6: the derivation is a function of the project name, the feature set and the two
  tokens it draws.  Two runs with the same project name and feature set whose token
  sources agree on the tokens drawn give the same calls, hence the same content for
  every path of the manifest, whatever else differs between the runs (the position of
  the project directory, the rest of the token source).
\<close>

theorem C6_derivation_deterministic:
  "shd us = shd us' \<and> shd (stl us) = shd (stl us')
     \<longrightarrow> manifest projectName f us = manifest projectName f us' \<and>
         (\<forall>p. artifact (manifest projectName f us) p = artifact (manifest projectName f us') p) \<and>
         scaffold dir projectName f us = scaffold dir projectName f us'"
  by (simp add: manifest_def scaffold_def randomUUID_def)

theorem C6_derivation_witness:
  "shd (''t1'' ## ''t2'' ## sconst ''x'') = shd (''t1'' ## ''t2'' ## sconst ''y'') \<and>
   shd (stl (''t1'' ## ''t2'' ## sconst ''x'')) = shd (stl (''t1'' ## ''t2'' ## sconst ''y'')) \<and>
   manifest ''my-app'' \<lparr>db = True, auth = True, reactScan = True\<rparr> (''t1'' ## ''t2'' ## sconst ''x'')
     = manifest ''my-app'' \<lparr>db = True, auth = True, reactScan = True\<rparr> (''t1'' ## ''t2'' ## sconst ''y'')"
  using C6_derivation_deterministic
          [of "''t1'' ## ''t2'' ## sconst ''x''" "''t1'' ## ''t2'' ## sconst ''y''"
              "''my-app''" "\<lparr>db = True, auth = True, reactScan = True\<rparr>" "[]"]
  by simp

subsection \<open>The secret token of the environment files\<close>

lemma generateEnvFile_inject:
  "(generateEnvFile projectName u = generateEnvFile projectName u') = (u = u')"
  by (simp add: generateEnvFile_def join_lines_def)

text \<open>
  C1, as the code has it: \<^verbatim>\<open>generateEnvFile\<close> is called once for \<^verbatim>\<open>.env\<close> and once
  more for \<^verbatim>\<open>.env.example\<close>, and each call draws its own token.  The first file
  carries the first token drawn and the second file the second; the two files are equal
  exactly when the two draws return the same token.
\<close>

theorem C1_env_files_draw_one_token_each:
  "artifact (manifest projectName f us) [''.env'']
     = Some (Text (generateEnvFile projectName (shd us))) \<and>
   artifact (manifest projectName f us) [''.env.example'']
     = Some (Text (generateEnvFile projectName (shd (stl us)))) \<and>
   ((artifact (manifest projectName f us) [''.env'']
       = artifact (manifest projectName f us) [''.env.example''])
     = (shd us = shd (stl us)))"
  by (simp add: manifest_unfold artifact_def generateEnvFile_inject)

theorem C1_env_files_witness:
  \<open>secretOf (artifact (manifest ''my-app'' \<lparr>db = True, auth = True, reactScan = False\<rparr>
       (''token-1'' ## ''token-1'' ## sconst ''token-3'')) [''.env'']) = Some ''"token-1"'' \<and>
   artifact (manifest ''my-app'' \<lparr>db = True, auth = True, reactScan = False\<rparr>
       (''token-1'' ## ''token-1'' ## sconst ''token-3'')) [''.env'']
     = artifact (manifest ''my-app'' \<lparr>db = True, auth = True, reactScan = False\<rparr>
       (''token-1'' ## ''token-1'' ## sconst ''token-3'')) [''.env.example'']\<close>
  using C1_env_files_draw_one_token_each
          [of "''my-app''" "\<lparr>db = True, auth = True, reactScan = False\<rparr>"
              "''token-1'' ## ''token-1'' ## sconst ''token-3''"]
  by (simp add: generateEnvFile_def join_lines_def envValue_def)

text \<open>
  C1 as written fails: with two different tokens drawn, the secret in \<^verbatim>\<open>.env\<close>
  is not the secret in \<^verbatim>\<open>.env.example\<close>.
\<close>

theorem C1_same_secret_counterexample:
  \<open>secretOf (artifact (manifest ''my-app'' \<lparr>db = True, auth = True, reactScan = False\<rparr>
       (''token-1'' ## ''token-2'' ## sconst ''token-3'')) [''.env''])
     = Some ''"token-1"'' \<and>
   secretOf (artifact (manifest ''my-app'' \<lparr>db = True, auth = True, reactScan = False\<rparr>
       (''token-1'' ## ''token-2'' ## sconst ''token-3'')) [''.env.example''])
     = Some ''"token-2"'' \<and>
   secretOf (artifact (manifest ''my-app'' \<lparr>db = True, auth = True, reactScan = False\<rparr>
       (''token-1'' ## ''token-2'' ## sconst ''token-3'')) [''.env''])
     \<noteq> secretOf (artifact (manifest ''my-app'' \<lparr>db = True, auth = True, reactScan = False\<rparr>
       (''token-1'' ## ''token-2'' ## sconst ''token-3'')) [''.env.example''])\<close>
  by (simp add: manifest_unfold artifact_def generateEnvFile_def join_lines_def envValue_def)

subsection \<open>Instrumentation when the performance tool is off\<close>

text \<open>
  The second version writes the component file and the component-mounting layout for
  every feature set.
\<close>

lemma second_version_always_injects:
  "artifact (manifest_v2 projectName f us) [''components'', ''ReactScan.tsx'']
     = Some (Text generateReactScanComponent_v2) \<and>
   artifact (manifest_v2 projectName f us) [''app'', ''layout.tsx'']
     = Some (Text generateLayout_v2)"
  by (simp add: manifest_v2_def scaffold_v2_def randomUUID_def artifact_def)

lemma layout_v2_mounts_ReactScan:
  \<open>occurs_in ''import { ReactScan } from "@/components/ReactScan";'' generateLayout_v2 \<and>
   occurs_in ''<ReactScan />'' generateLayout_v2\<close>
  by (simp add: generateLayout_v2_def join_lines_def)

lemma component_v2_imports_react_scan:
  \<open>occurs_in ''import { scan } from "react-scan";'' generateReactScanComponent_v2\<close>
  by (simp add: generateReactScanComponent_v2_def join_lines_def)

lemma layout_without_reactScan:
  \<open>\<not> reactScan f \<Longrightarrow>
     \<not> occurs_in ''<script'' (generateLayout f) \<and> \<not> occurs_in ''ReactScan'' (generateLayout f) \<and>
     \<not> occurs_in ''react-scan'' (generateLayout f)\<close>
  by (simp add: generateLayout_def reactScanComponent_def join_lines_def)

text \<open>
  The first version of the program keeps the performance tool out when its flag is off:
  no \<^verbatim>\<open>react-scan\<close> dependency, no script tag or component in the root layout, no
  component file.
\<close>

lemma first_version_no_instrumentation:
  \<open>\<not> reactScan f \<Longrightarrow>
     ''react-scan'' \<notin> dependencyKeys (artifact (manifest projectName f us) [''package.json'']) \<and>
     artifact (manifest projectName f us) [''app'', ''layout.tsx''] = Some (Text (generateLayout f)) \<and>
     \<not> occurs_in ''<script'' (generateLayout f) \<and> \<not> occurs_in ''ReactScan'' (generateLayout f) \<and>
     artifact (manifest projectName f us) [''components'', ''ReactScan.tsx''] = None\<close>
  using layout_without_reactScan [of f]
  by (simp add: manifest_unfold artifact_def generatePackageJson_def record_json_def
        dependencies_unfold baseDependencies_def image_Un)

text \<open>
  C2 at a failing input, in the second version of the program: for the project
  \<^verbatim>\<open>my-app\<close> with every feature off, the package manifest has no \<^verbatim>\<open>react-scan\<close>
  dependency, yet the manifest holds the component file \<^verbatim>\<open>components/ReactScan.tsx\<close>,
  which imports \<^verbatim>\<open>react-scan\<close>, and the root layout imports and mounts that
  component.
\<close>

theorem C2_second_version_injects_when_off:
  \<open>''react-scan'' \<notin> dependencyKeys
       (artifact (manifest_v2 ''my-app'' \<lparr>db = False, auth = False, reactScan = False\<rparr>
          (''token-1'' ## ''token-2'' ## sconst ''token-3'')) [''package.json'']) \<and>
   artifact (manifest_v2 ''my-app'' \<lparr>db = False, auth = False, reactScan = False\<rparr>
       (''token-1'' ## ''token-2'' ## sconst ''token-3'')) [''components'', ''ReactScan.tsx'']
     = Some (Text generateReactScanComponent_v2) \<and>
   occurs_in ''import { scan } from "react-scan";'' generateReactScanComponent_v2 \<and>
   artifact (manifest_v2 ''my-app'' \<lparr>db = False, auth = False, reactScan = False\<rparr>
       (''token-1'' ## ''token-2'' ## sconst ''token-3'')) [''app'', ''layout.tsx'']
     = Some (Text generateLayout_v2) \<and>
   occurs_in ''<ReactScan />'' generateLayout_v2\<close>
  using layout_v2_mounts_ReactScan component_v2_imports_react_scan
  by (simp add: manifest_v2_def scaffold_v2_def randomUUID_def artifact_def
        generatePackageJson_v2_def record_json_def dependencies_v2_def baseDependencies_v2_def)

subsection \<open>The \<^verbatim>\<open>--db\<close> flag in interactive mode\<close>

text \<open>
  C3 at a failing input: \<^verbatim>\<open>--db\<close> is supplied without \<^verbatim>\<open>--yes\<close> and the user
  confirms the multi-select with nothing selected.  The resolved feature set has the
  database off: the prompt's answer replaced the flag.  With \<^verbatim>\<open>--yes\<close> the same flag
  carries through.
\<close>

theorem C3_db_flag_lost_in_interactive_mode:
  "db (resolveFeatures
         \<lparr>values_db = Some True, values_auth = None, values_reactScan = None,
          values_yes = None\<rparr> (Some [])) = False \<and>
   db (resolveFeatures
         \<lparr>values_db = Some True, values_auth = None, values_reactScan = None,
          values_yes = Some True\<rparr> (Some [])) = True"
  by (simp add: resolveFeatures_def selectFeatures_def promptFeatures_def flagFeatures_def
        enableDbForAuth_def truthy_def orFalse_def)

subsection \<open>Running a block of calls\<close>

lemma run_ops_append:
  "\<forall>x\<in>set xs. io x = None \<Longrightarrow> run_ops io (xs @ ys) d = run_ops io ys (apply_ops xs d)"
  by (induction xs arbitrary: d) simp_all

lemma run_ops_all_succeed:
  "\<forall>x\<in>set xs. io x = None \<Longrightarrow> run_ops io xs d = (None, apply_ops xs d)"
  using run_ops_append [of xs io "[]" d] by simp

lemma run_ops_first_failure:
  assumes "k < length xs" and "io (xs ! k) = Some err"
    and "\<forall>x\<in>set (take k xs). io x = None"
  shows "run_ops io xs d = (Some err, apply_ops (take k xs) d)"
proof -
  have "xs = take k xs @ xs ! k # drop (Suc k) xs"
    using assms(1) by (simp add: id_take_nth_drop)
  then have "run_ops io xs d = run_ops io (xs ! k # drop (Suc k) xs) (apply_ops (take k xs) d)"
    using run_ops_append [OF assms(3), of "xs ! k # drop (Suc k) xs" d] by simp
  then show ?thesis using assms(2) by simp
qed

lemma run_ops_some_failure:
  "\<exists>x\<in>set xs. io x \<noteq> None \<Longrightarrow> \<exists>err d'. run_ops io xs d = (Some err, d')"
proof (induction xs arbitrary: d)
  case Nil
  then show ?case by simp
next
  case (Cons x xs)
  show ?case
  proof (cases "io x")
    case None
    with Cons.prems have "\<exists>y\<in>set xs. io y \<noteq> None" by auto
    from Cons.IH [OF this] None show ?thesis by simp
  next
    case (Some err)
    then show ?thesis by simp
  qed
qed

lemma run_gitCommands_disk: "snd (run_ops io (gitCommands dir) d) = d"
  by (simp add: gitCommands_def split: option.splits)

lemma files_apply_ops_other:
  "p \<notin> fst ` set (writes xs) \<Longrightarrow> files (apply_ops xs d) p = files d p"
proof (induction xs arbitrary: d)
  case Nil
  then show ?case by simp
next
  case (Cons x xs)
  then show ?case by (cases x) auto
qed

lemma files_apply_ops_written:
  "(p, c) \<in> set (writes xs) \<Longrightarrow> distinct (map fst (writes xs))
     \<Longrightarrow> files (apply_ops xs d) p = Some c"
proof (induction xs arbitrary: d)
  case Nil
  then show ?case by simp
next
  case (Cons x xs)
  show ?case
  proof (cases x)
    case (WriteFile q c')
    show ?thesis
    proof (cases "(p, c) = (q, c')")
      case True
      with Cons.prems WriteFile have "p \<notin> fst ` set (writes xs)" by auto
      from files_apply_ops_other [OF this] True WriteFile show ?thesis by simp
    next
      case False
      with Cons.prems WriteFile have "(p, c) \<in> set (writes xs)" "distinct (map fst (writes xs))"
        by auto
      from Cons.IH [OF this] WriteFile show ?thesis by simp
    qed
  next
    case (Mkdir q)
    with Cons show ?thesis by simp
  next
    case (ExecSync cmd q)
    with Cons show ?thesis by simp
  qed
qed

lemma distinct_writes_take:
  "distinct (map fst (writes xs)) \<Longrightarrow> distinct (map fst (writes (take k xs)))"
proof -
  have "writes xs = writes (take k xs) @ writes (drop k xs)"
    using writes_append [of "take k xs" "drop k xs"] by simp
  then show "distinct (map fst (writes xs)) \<Longrightarrow> distinct (map fst (writes (take k xs)))"
    by simp
qed

lemma scaffold_paths_distinct:
  "distinct (map fst (writes (scaffold dir projectName f us)))"
  by (simp add: scaffold_def randomUUID_def writes_append)

lemma inputNotes_are_notes: "x \<in> set (inputNotes e) \<Longrightarrow> \<exists>t. x = Note t"
  by (auto simp: inputNotes_def Let_def split: if_splits)

subsection \<open>The example runs\<close>

lemma example_projectDir: "projectDirOf (run_with io) = [''work'', ''my-app'']"
  by (simp add: projectDirOf_def resolveProjectName_def run_with_def example_cli_def truthy_def)

lemma example_projectName: "resolveProjectName (run_with io) = ''my-app''"
  by (simp add: resolveProjectName_def run_with_def example_cli_def truthy_def)

lemma example_scaffoldOps:
  "scaffoldOps (run_with io) =
     scaffold [''work'', ''my-app''] ''my-app'' \<lparr>db = True, auth = True, reactScan = False\<rparr>
       (''token-1'' ## ''token-2'' ## sconst ''token-3'')"
  by (simp add: scaffoldOps_def example_projectDir example_projectName)
     (simp add: resolveFeatures_def selectFeatures_def flagFeatures_def
        enableDbForAuth_def run_with_def example_cli_def truthy_def orFalse_def)

subsection \<open>Failure of a git command\<close>

text \<open>
  C8: when the project directory and every file are written without error and one of the
  three git commands fails, the failure is caught: the spinner stops with a warning,
  \<^verbatim>\<open>main\<close> goes on to print the success message as its last output, the exit status
  is 0, and the disk holds everything the scaffolding block wrote.
\<close>

theorem C8_git_failure_is_not_fatal:
  assumes "io_error e (Mkdir (projectDirOf e)) = None"
    and "\<forall>x\<in>set (scaffoldOps e). io_error e x = None"
    and "\<exists>x\<in>set (gitCommands (projectDirOf e)). io_error e x \<noteq> None"
  shows "exit_code (main e) = 0 \<and>
         SpinnerStop ''Failed to initialize git repository'' \<in> set (messages (main e)) \<and>
         last (messages (main e)) = Outro (successMessage (resolveProjectName e)) \<and>
         final_disk (main e)
           = apply_ops (scaffoldOps e) (apply_op (Mkdir (projectDirOf e)) (disk0 e))"
proof -
  let ?d1 = "apply_op (Mkdir (projectDirOf e)) (disk0 e)"
  let ?d2 = "apply_ops (scaffoldOps e) ?d1"
  have files: "run_ops (io_error e) (scaffoldOps e) ?d1 = (None, ?d2)"
    using assms(2) by (rule run_ops_all_succeed)
  obtain err d3 where git: "run_ops (io_error e) (gitCommands (projectDirOf e)) ?d2 = (Some err, d3)"
    using run_ops_some_failure [OF assms(3)] by blast
  have "d3 = ?d2"
    using run_gitCommands_disk [of "io_error e" "projectDirOf e" ?d2] git by simp
  then show ?thesis
    using assms(1) files git by (simp add: main_def Let_def)
qed

theorem C8_git_failure_witness:
  "exit_code (main (run_with git_add_fails)) = 0 \<and>
   SpinnerStop ''Failed to initialize git repository''
     \<in> set (messages (main (run_with git_add_fails))) \<and>
   last (messages (main (run_with git_add_fails))) = Outro (successMessage ''my-app'') \<and>
   files (final_disk (main (run_with git_add_fails))) [''work'', ''my-app'', ''lib'', ''db.ts'']
     = Some (Text generateMongoDbConfig)"
proof -
  let ?e = "run_with git_add_fails"
  have io: "io_error ?e = git_add_fails" by (simp add: run_with_def)
  have h1: "io_error ?e (Mkdir (projectDirOf ?e)) = None"
    by (simp add: io git_add_fails_def)
  have h2: "\<forall>x\<in>set (scaffoldOps ?e). io_error ?e x = None"
    by (simp add: io example_scaffoldOps scaffold_def randomUUID_def git_add_fails_def)
  have h3: "\<exists>x\<in>set (gitCommands (projectDirOf ?e)). io_error ?e x \<noteq> None"
    by (simp add: io git_add_fails_def gitCommands_def)
  have "([''work'', ''my-app'', ''lib'', ''db.ts''], Text generateMongoDbConfig)
          \<in> set (writes (scaffoldOps ?e))"
    by (simp add: example_scaffoldOps scaffold_def randomUUID_def)
  then have "files (apply_ops (scaffoldOps ?e) (apply_op (Mkdir (projectDirOf ?e)) (disk0 ?e)))
               [''work'', ''my-app'', ''lib'', ''db.ts''] = Some (Text generateMongoDbConfig)"
    by (rule files_apply_ops_written) (simp add: scaffoldOps_def scaffold_paths_distinct)
  then show ?thesis
    using C8_git_failure_is_not_fatal [OF h1 h2 h3] by (simp add: example_projectName)
qed

subsection \<open>Failure of a write\<close>

text \<open>
  C9: when the project directory is created and the call number \<open>k\<close> of the scaffolding
  block is the first to fail, with error \<open>err\<close>, the block is left at once: the spinner
  stops with the failure message that carries \<open>err\<close> as the last output, the exit status
  is 1, git is not started and no success message is printed.  The disk is what the
  first \<open>k\<close> calls made it: every file they wrote is there with its content, and every
  other path holds what it held before the run.
\<close>

theorem C9_write_failure_aborts_without_rollback:
  assumes "io_error e (Mkdir (projectDirOf e)) = None"
    and "k < length (scaffoldOps e)"
    and "io_error e (scaffoldOps e ! k) = Some err"
    and "\<forall>x\<in>set (take k (scaffoldOps e)). io_error e x = None"
  shows "exit_code (main e) = 1 \<and>
         last (messages (main e)) = SpinnerStop (''Failed to scaffold project: '' @ err) \<and>
         SpinnerStart ''Initializing git repository'' \<notin> set (messages (main e)) \<and>
         (\<forall>m. Outro m \<notin> set (messages (main e))) \<and>
         final_disk (main e)
           = apply_ops (take k (scaffoldOps e)) (apply_op (Mkdir (projectDirOf e)) (disk0 e)) \<and>
         (\<forall>p c. (p, c) \<in> set (writes (take k (scaffoldOps e)))
                  \<longrightarrow> files (final_disk (main e)) p = Some c) \<and>
         (\<forall>p. p \<notin> fst ` set (writes (take k (scaffoldOps e)))
                  \<longrightarrow> files (final_disk (main e)) p = files (disk0 e) p)"
proof -
  let ?d1 = "apply_op (Mkdir (projectDirOf e)) (disk0 e)"
  let ?d2 = "apply_ops (take k (scaffoldOps e)) ?d1"
  have run: "run_ops (io_error e) (scaffoldOps e) ?d1 = (Some err, ?d2)"
    using assms(2,3,4) by (rule run_ops_first_failure)
  have msgs: "messages (main e) =
      [Intro] @ inputNotes e @
      [SpinnerStart ''Creating project directory'', SpinnerStop ''Project directory created'',
       SpinnerStart ''Scaffolding project files'',
       SpinnerStop (''Failed to scaffold project: '' @ err)]"
    using assms(1) run by (simp add: main_def Let_def)
  have disk: "final_disk (main e) = ?d2"
    using assms(1) run by (simp add: main_def Let_def)
  have code: "exit_code (main e) = 1"
    using assms(1) run by (simp add: main_def Let_def)
  have dist: "distinct (map fst (writes (take k (scaffoldOps e))))"
    by (rule distinct_writes_take) (simp add: scaffoldOps_def scaffold_paths_distinct)
  have kept: "files ?d2 p = Some c" if "(p, c) \<in> set (writes (take k (scaffoldOps e)))" for p c
    using that dist by (rule files_apply_ops_written)
  have others: "files ?d2 p = files (disk0 e) p"
    if "p \<notin> fst ` set (writes (take k (scaffoldOps e)))" for p
    using files_apply_ops_other [OF that, of ?d1] by simp
  have no_git: "SpinnerStart ''Initializing git repository'' \<notin> set (messages (main e))"
    unfolding msgs using inputNotes_are_notes [of _ e] by auto
  have no_outro: "Outro m \<notin> set (messages (main e))" for m
    unfolding msgs using inputNotes_are_notes [of _ e] by auto
  show ?thesis
    using code disk kept others no_git no_outro by (simp add: msgs)
qed

theorem C9_write_failure_witness:
  "exit_code (main (run_with env_example_write_fails)) = 1 \<and>
   last (messages (main (run_with env_example_write_fails)))
     = SpinnerStop ''Failed to scaffold project: Error: EACCES: permission denied'' \<and>
   files (final_disk (main (run_with env_example_write_fails))) [''work'', ''my-app'', ''.env'']
     = Some (Text (generateEnvFile ''my-app'' ''token-1'')) \<and>
   files (final_disk (main (run_with env_example_write_fails))) [''work'', ''my-app'', ''README.md'']
     = None"
proof -
  let ?e = "run_with env_example_write_fails"
  have io: "io_error ?e = env_example_write_fails" by (simp add: run_with_def)
  have ops: "take 5 (scaffoldOps ?e) =
      [WriteFile [''work'', ''my-app'', ''package.json'']
         (Json (generatePackageJson ''my-app'' \<lparr>db = True, auth = True, reactScan = False\<rparr>)),
       WriteFile [''work'', ''my-app'', ''next.config.js''] (Text generateNextConfig),
       WriteFile [''work'', ''my-app'', ''tsconfig.json''] (Json generateTsConfig),
       WriteFile [''work'', ''my-app'', ''.env''] (Text (generateEnvFile ''my-app'' ''token-1'')),
       WriteFile [''work'', ''my-app'', ''.env.example'']
         (Text (generateEnvFile ''my-app'' ''token-2''))]"
    by (simp add: example_scaffoldOps scaffold_def randomUUID_def)
  have len: "4 < length (scaffoldOps ?e)"
    by (simp add: example_scaffoldOps scaffold_def randomUUID_def)
  have t4: "take 4 (scaffoldOps ?e) = take 4 (take 5 (scaffoldOps ?e))" by simp
  have n4: "scaffoldOps ?e ! 4 = take 5 (scaffoldOps ?e) ! 4" by simp
  have h1: "io_error ?e (Mkdir (projectDirOf ?e)) = None"
    by (simp add: io env_example_write_fails_def)
  have h3: "io_error ?e (scaffoldOps ?e ! 4) = Some ''Error: EACCES: permission denied''"
    unfolding n4 ops by (simp add: io env_example_write_fails_def)
  have h4: "\<forall>x\<in>set (take 4 (scaffoldOps ?e)). io_error ?e x = None"
    unfolding t4 ops by (simp add: io env_example_write_fails_def)
  have w: "writes (take 4 (scaffoldOps ?e)) =
      [([''work'', ''my-app'', ''package.json''],
         Json (generatePackageJson ''my-app'' \<lparr>db = True, auth = True, reactScan = False\<rparr>)),
       ([''work'', ''my-app'', ''next.config.js''], Text generateNextConfig),
       ([''work'', ''my-app'', ''tsconfig.json''], Json generateTsConfig),
       ([''work'', ''my-app'', ''.env''], Text (generateEnvFile ''my-app'' ''token-1''))]"
    unfolding t4 ops by simp
  note result = C9_write_failure_aborts_without_rollback [OF h1 len h3 h4]
  have code: "exit_code (main ?e) = 1" using result by blast
  have msg: "last (messages (main ?e))
      = SpinnerStop (''Failed to scaffold project: '' @ ''Error: EACCES: permission denied'')"
    using result by blast
  have kept: "files (final_disk (main ?e)) p = Some c"
    if "(p, c) \<in> set (writes (take 4 (scaffoldOps ?e)))" for p c
    using result that by blast
  have others: "files (final_disk (main ?e)) p = files (disk0 ?e) p"
    if "p \<notin> fst ` set (writes (take 4 (scaffoldOps ?e)))" for p
    using result that by blast
  have env: "files (final_disk (main ?e)) [''work'', ''my-app'', ''.env'']
      = Some (Text (generateEnvFile ''my-app'' ''token-1''))"
    by (rule kept) (simp add: w)
  have "files (final_disk (main ?e)) [''work'', ''my-app'', ''README.md'']
      = files (disk0 ?e) [''work'', ''my-app'', ''README.md'']"
    by (rule others) (simp add: w)
  then have readme: "files (final_disk (main ?e)) [''work'', ''my-app'', ''README.md''] = None"
    by (simp add: run_with_def)
  show ?thesis using code msg env readme by simp
qed

subsection \<open>A successful run realises the manifest\<close>

lemma scaffold_writes_manifest:
  "writes (scaffold dir projectName f us)
     = map (\<lambda>(p, c). (dir @ p, c)) (manifest projectName f us)"
  by (simp add: manifest_def scaffold_def randomUUID_def writes_append)

lemma final_disk_after_scaffold:
  assumes "io_error e (Mkdir (projectDirOf e)) = None"
    and "\<forall>x\<in>set (scaffoldOps e). io_error e x = None"
  shows "final_disk (main e)
           = apply_ops (scaffoldOps e) (apply_op (Mkdir (projectDirOf e)) (disk0 e))"
proof -
  let ?d2 = "apply_ops (scaffoldOps e) (apply_op (Mkdir (projectDirOf e)) (disk0 e))"
  have files: "run_ops (io_error e) (scaffoldOps e) (apply_op (Mkdir (projectDirOf e)) (disk0 e))
      = (None, ?d2)"
    using assms(2) by (rule run_ops_all_succeed)
  obtain r d3 where git: "run_ops (io_error e) (gitCommands (projectDirOf e)) ?d2 = (r, d3)"
    by (cases "run_ops (io_error e) (gitCommands (projectDirOf e)) ?d2")
  have "d3 = ?d2"
    using run_gitCommands_disk [of "io_error e" "projectDirOf e" ?d2] git by simp
  then show ?thesis
    using assms(1) files git by (simp add: main_def Let_def)
qed

text \<open>
  When no call fails, every artifact of the manifest derived from the resolved project
  name and feature set is on disk under the project directory, with its content.
\<close>

lemma successful_run_writes_manifest:
  assumes "io_error e (Mkdir (projectDirOf e)) = None"
    and "\<forall>x\<in>set (scaffoldOps e). io_error e x = None"
    and "(p, c) \<in> set (manifest (resolveProjectName e)
                          (resolveFeatures (cli e) (multiselect_answer e)) (uuid_source e))"
  shows "files (final_disk (main e)) (projectDirOf e @ p) = Some c"
proof -
  have "(projectDirOf e @ p, c) \<in> set (writes (scaffoldOps e))"
    using assms(3) unfolding scaffoldOps_def scaffold_writes_manifest by force
  then have "files (apply_ops (scaffoldOps e) (apply_op (Mkdir (projectDirOf e)) (disk0 e)))
               (projectDirOf e @ p) = Some c"
    by (rule files_apply_ops_written) (simp add: scaffoldOps_def scaffold_paths_distinct)
  then show ?thesis
    using final_disk_after_scaffold [OF assms(1,2)] by simp
qed


end
